theory Spec2Isabelle
  imports Complex_Main "HOL-Library.Word"
begin

section \<open>Strings, buffers and JavaScript truthiness\<close>

text \<open>
  A Node \<^verbatim>\<open>Buffer\<close> is a list of bytes. Of a buffer the program only reads its
  length and its base64 rendering; decoding is left to the image library.
\<close>

type_synonym buffer = "8 word list"

text \<open>\<^verbatim>\<open>String.prototype.startsWith\<close> and \<^verbatim>\<open>String.prototype.includes\<close>.\<close>

fun startsWith :: "string \<Rightarrow> string \<Rightarrow> bool" where
  "startsWith s [] = True"
| "startsWith [] (c # cs) = False"
| "startsWith (x # xs) (c # cs) = (x = c \<and> startsWith xs cs)"

fun str_includes :: "string \<Rightarrow> string \<Rightarrow> bool" where
  "str_includes [] sub = (sub = [])"
| "str_includes (x # xs) sub = (startsWith (x # xs) sub \<or> str_includes xs sub)"

text \<open>A non-negative integer inside a template literal: its decimal digits.\<close>

definition digit_char :: "nat \<Rightarrow> char" where
  "digit_char d = ''0123456789'' ! d"

fun number_to_string :: "nat \<Rightarrow> string" where
  "number_to_string n =
     (if n < 10 then [digit_char n]
      else number_to_string (n div 10) @ [digit_char (n mod 10)])"

declare number_to_string.simps [simp del]

text \<open>
  Truthiness of optional values: \<^verbatim>\<open>undefined\<close>, the empty string and \<^verbatim>\<open>0\<close> are falsy;
  \<^verbatim>\<open>a || b\<close> is \<^verbatim>\<open>b\<close> exactly when \<^verbatim>\<open>a\<close> is falsy.
\<close>

definition falsy_str :: "string option \<Rightarrow> bool" where
  "falsy_str a = (case a of None \<Rightarrow> True | Some s \<Rightarrow> s = [])"

definition falsy_num :: "int option \<Rightarrow> bool" where
  "falsy_num a = (case a of None \<Rightarrow> True | Some n \<Rightarrow> n = 0)"

definition str_or :: "string option \<Rightarrow> string \<Rightarrow> string" where
  "str_or a b = (case a of None \<Rightarrow> b | Some s \<Rightarrow> if s = [] then b else s)"

definition num_or :: "int option \<Rightarrow> int \<Rightarrow> int" where
  "num_or a b = (case a of None \<Rightarrow> b | Some n \<Rightarrow> if n = 0 then b else n)"

definition bool_or :: "bool option \<Rightarrow> bool \<Rightarrow> bool" where
  "bool_or a b = (case a of None \<Rightarrow> b | Some x \<Rightarrow> if x then True else b)"

text \<open>\<^verbatim>\<open>n < 1\<close> on an optional number (\<^verbatim>\<open>undefined < 1\<close> is false).\<close>

definition less_than_one :: "int option \<Rightarrow> bool" where
  "less_than_one a = (case a of None \<Rightarrow> False | Some n \<Rightarrow> n < 1)"

text \<open>\<^verbatim>\<open>Array.prototype.includes\<close> on a list of strings, asked about an optional string.\<close>

definition list_includes :: "string list \<Rightarrow> string option \<Rightarrow> bool" where
  "list_includes xs a = (case a of None \<Rightarrow> False | Some s \<Rightarrow> s \<in> set xs)"

section \<open>Domain errors (DomainErrors.ts)\<close>

text \<open>
  Everything the program throws or catches. An \<^verbatim>\<open>Error\<close> object has a class (what
  \<^verbatim>\<open>instanceof\<close> tests), a name, a message, the stack recorded when it was built and, for
  a domain error, an optional cause. \<open>OtherError\<close> stands for every class outside
  DomainErrors.ts (\<^verbatim>\<open>Error\<close>, \<^verbatim>\<open>TypeError\<close>, the HTTP client's \<^verbatim>\<open>AbortError\<close>, ...).
  A thrown value that is no \<^verbatim>\<open>Error\<close> at all is \<open>ThrownNonError\<close>.
\<close>

datatype error_class =
    ImageProcessingError
  | ImageAnalysisError
  | UnsupportedModelError
  | InvalidImageError
  | ImageNotFoundError
  | OtherError

datatype js_error =
  JsError (err_class: error_class) (err_name: string) (err_message: string)
    (err_stack: string) (err_cause: "js_error option")

datatype thrown = Thrown js_error | ThrownNonError

text \<open>The constructors; the first argument is the stack the runtime records.\<close>

definition new_Error :: "string \<Rightarrow> string \<Rightarrow> js_error" where
  "new_Error stk msg = JsError OtherError ''Error'' msg stk None"

definition new_ImageProcessingError :: "string \<Rightarrow> string \<Rightarrow> js_error option \<Rightarrow> js_error" where
  "new_ImageProcessingError stk msg c =
     JsError ImageProcessingError ''ImageProcessingError'' (''Image processing failed: '' @ msg) stk c"

definition new_ImageAnalysisError :: "string \<Rightarrow> string \<Rightarrow> js_error option \<Rightarrow> js_error" where
  "new_ImageAnalysisError stk msg c =
     JsError ImageAnalysisError ''ImageAnalysisError'' (''Vision analysis failed: '' @ msg) stk c"

definition new_InvalidImageError :: "string \<Rightarrow> string \<Rightarrow> js_error" where
  "new_InvalidImageError stk reason =
     JsError InvalidImageError ''InvalidImageError'' (''Invalid image: '' @ reason) stk None"

definition new_ImageNotFoundError :: "string \<Rightarrow> string \<Rightarrow> js_error" where
  "new_ImageNotFoundError stk source =
     JsError ImageNotFoundError ''ImageNotFoundError'' (''Image not found: '' @ source) stk None"

text \<open>\<^verbatim>\<open>error instanceof C\<close> for a class of DomainErrors.ts.\<close>

definition instance_of :: "thrown \<Rightarrow> error_class \<Rightarrow> bool" where
  "instance_of e c = (case e of Thrown x \<Rightarrow> err_class x = c | ThrownNonError \<Rightarrow> False)"

text \<open>\<^verbatim>\<open>error instanceof Error ? error : undefined\<close>\<close>

definition as_Error :: "thrown \<Rightarrow> js_error option" where
  "as_Error e = (case e of Thrown x \<Rightarrow> Some x | ThrownNonError \<Rightarrow> None)"

text \<open>\<^verbatim>\<open>error instanceof Error ? error.message : 'Unknown error'\<close>\<close>

definition message_or_unknown :: "thrown \<Rightarrow> string" where
  "message_or_unknown e = (case e of Thrown x \<Rightarrow> err_message x | ThrownNonError \<Rightarrow> ''Unknown error'')"

section \<open>Configuration (AppConfig.ts)\<close>

record OpenRouterConfig =
  apiKey :: string
  baseUrl :: string
  defaultModel :: string
  timeout :: nat
  maxTokens :: nat
  httpReferer :: string

record ImageConfig =
  maxSizeBytes :: nat
  supportedFormats :: "string list"
  quality :: int

record AppConfig =
  openRouter :: OpenRouterConfig
  image_cfg :: ImageConfig

text \<open>
  \<^verbatim>\<open>defaultConfig\<close> when no environment variable overrides a value; the API key has no
  default and is the argument.
\<close>

definition defaultConfig :: "string \<Rightarrow> AppConfig" where
  "defaultConfig key =
     \<lparr> openRouter =
         \<lparr> apiKey = key,
           baseUrl = ''https://openrouter.ai/api/v1'',
           defaultModel = ''anthropic/claude-3.5-sonnet'',
           timeout = 30000,
           maxTokens = 1000,
           httpReferer = ''https://github.com/TheNomadInOrbit/vision-mcp-server'' \<rparr>,
       image_cfg =
         \<lparr> maxSizeBytes = 10485760,
           supportedFormats = [''jpg'', ''jpeg'', ''png'', ''gif'', ''bmp'', ''webp''],
           quality = 85 \<rparr> \<rparr>"

section \<open>JSON values as JavaScript reads them\<close>

text \<open>
  What \<^verbatim>\<open>JSON.parse\<close> can return. The program casts the parsed response body to
  \<^verbatim>\<open>OpenRouterResponse\<close> with \<^verbatim>\<open>as\<close>, which checks nothing at run time, so it may
  meet any of these values where its types promise a string, an array or an object. An
  object lists its members, each key once. A number literal too large for a double is
  read as \<^verbatim>\<open>Infinity\<close>, which behaves here as any non-zero number.
\<close>

datatype json =
    JNull
  | JBool bool
  | JNumber real
  | JString string
  | JArray "json list"
  | JObject "(string \<times> json) list"

text \<open>
  A value read off a parsed body is a \<open>json option\<close>: \<open>None\<close> is \<^verbatim>\<open>undefined\<close>.
  Truthiness: \<^verbatim>\<open>undefined\<close>, \<^verbatim>\<open>null\<close>, \<^verbatim>\<open>false\<close>, \<^verbatim>\<open>0\<close> and \<^verbatim>\<open>""\<close> are falsy, every
  other value is truthy, arrays and objects included.
\<close>

fun truthy_value :: "json \<Rightarrow> bool" where
  "truthy_value JNull = False"
| "truthy_value (JBool b) = b"
| "truthy_value (JNumber n) = (n \<noteq> 0)"
| "truthy_value (JString s) = (s \<noteq> [])"
| "truthy_value (JArray xs) = True"
| "truthy_value (JObject kvs) = True"

definition truthy :: "json option \<Rightarrow> bool" where
  "truthy v = (case v of None \<Rightarrow> False | Some x \<Rightarrow> truthy_value x)"

text \<open>
  \<^verbatim>\<open>x.k\<close> on a value that is neither \<^verbatim>\<open>null\<close> nor \<^verbatim>\<open>undefined\<close>, for the keys the program
  reads by name (\<^verbatim>\<open>choices\<close>, \<^verbatim>\<open>message\<close>, \<^verbatim>\<open>content\<close>, \<^verbatim>\<open>usage\<close>, \<^verbatim>\<open>id\<close>): an object
  gives its member, every other value gives \<^verbatim>\<open>undefined\<close>.
\<close>

fun js_member :: "json \<Rightarrow> string \<Rightarrow> json option" where
  "js_member (JObject kvs) k = map_of kvs k"
| "js_member v k = None"

text \<open>\<^verbatim>\<open>x?.k\<close>: \<^verbatim>\<open>undefined\<close> when \<open>x\<close> is \<^verbatim>\<open>undefined\<close> or \<^verbatim>\<open>null\<close>, else \<^verbatim>\<open>x.k\<close>.\<close>

definition opt_chain :: "json option \<Rightarrow> string \<Rightarrow> json option" where
  "opt_chain x k =
     (case x of
        None \<Rightarrow> None
      | Some JNull \<Rightarrow> None
      | Some v \<Rightarrow> js_member v k)"

text \<open>
  \<^verbatim>\<open>x.length\<close>: the number of elements of an array, the number of characters of a
  string, the member of that name of an object, \<^verbatim>\<open>undefined\<close> otherwise.
\<close>

fun js_length :: "json \<Rightarrow> json option" where
  "js_length (JArray xs) = Some (JNumber (real (length xs)))"
| "js_length (JString s) = Some (JNumber (real (length s)))"
| "js_length (JObject kvs) = map_of kvs ''length''"
| "js_length v = None"

text \<open>
  \<^verbatim>\<open>x[0]\<close>: the first element of an array, the first character of a string, the member
  \<^verbatim>\<open>"0"\<close> of an object, \<^verbatim>\<open>undefined\<close> otherwise.
\<close>

fun js_first :: "json \<Rightarrow> json option" where
  "js_first (JArray xs) = (case xs of [] \<Rightarrow> None | x # rest \<Rightarrow> Some x)"
| "js_first (JString s) = (case s of [] \<Rightarrow> None | c # rest \<Rightarrow> Some (JString [c]))"
| "js_first (JObject kvs) = map_of kvs ''0''"
| "js_first v = None"

text \<open>\<^verbatim>\<open>a || b\<close> where \<open>b\<close> is a value.\<close>

definition value_or :: "json option \<Rightarrow> json \<Rightarrow> json" where
  "value_or a b = (case a of None \<Rightarrow> b | Some v \<Rightarrow> if truthy_value v then v else b)"

text \<open>
  An awaited promise: settled (fulfilled, \<open>Inr\<close>, or rejected, \<open>Inl\<close>), or pending for
  ever. An \<^verbatim>\<open>await\<close> on a promise that stays pending never returns, and neither does
  the function that awaits it: no handler runs.
\<close>

datatype 'a promise = Settled 'a | Pending

section \<open>Domain entities (ImageAnalysis.ts)\<close>

text \<open>Every field of \<^verbatim>\<open>ImageMetadata\<close> is optional in the source (\<^verbatim>\<open>width?: number\<close>, ...).\<close>

record ImageMetadata =
  md_width :: "int option"
  md_height :: "int option"
  md_format :: "string option"
  md_size :: "nat option"
  md_hasAlpha :: "bool option"
  md_colorSpace :: "string option"
  md_density :: "int option"

datatype source_type = File | Url

record ImageSource =
  src_type :: source_type
  src_path :: "string option"
  src_data :: "buffer option"
  src_url :: "string option"
  src_metadata :: "ImageMetadata option"

text \<open>
  \<^verbatim>\<open>ImageAnalysis\<close>. The source types \<^verbatim>\<open>id\<close> and \<^verbatim>\<open>analysis\<close> as strings and \<^verbatim>\<open>usage\<close>
  as a record of three numbers; at run time they hold what \<^verbatim>\<open>create\<close> was given, which
  the analysis service reads off the unchecked response body.
\<close>

record ImageAnalysis =
  ia_id :: json
  ia_imageSource :: ImageSource
  ia_model :: string
  ia_analysis :: json
  ia_timestamp :: nat
  ia_metadata :: "ImageMetadata option"
  ia_usage :: "json option"

section \<open>The image library (sharp) as the program uses it\<close>

text \<open>
  What \<^verbatim>\<open>sharp(data).metadata()\<close> resolves to: every field may be missing.
\<close>

record sharp_metadata =
  sharp_width :: "int option"
  sharp_height :: "int option"
  sharp_format :: "string option"
  sharp_hasAlpha :: "bool option"
  sharp_space :: "string option"
  sharp_density :: "int option"

text \<open>
  A chain \<^verbatim>\<open>sharp(data).resize(..).jpeg(..).toBuffer()\<close> is the list of operations the
  program asks for, in order. \<open>Jpeg q p\<close> is \<^verbatim>\<open>.jpeg({quality: q, progressive: p})\<close>,
  \<open>Png c p\<close> is \<^verbatim>\<open>.png({compressionLevel: c, progressive: p})\<close>, \<open>Webp q\<close> is
  \<^verbatim>\<open>.webp({quality: q})\<close>.
\<close>

datatype fit_mode = FitCover | FitInside

record resize_options =
  resize_width :: "int option"
  resize_height :: "int option"
  resize_fit :: fit_mode
  resize_withoutEnlargement :: bool

datatype sharp_op = Resize resize_options | Jpeg int bool | Png int bool | Webp int

text \<open>
  Modelled from the spec: the resize of the decode/encode capability (the sharp library,
  which is not part of the repository). A resize keeps the aspect ratio: the side that
  is asked for becomes the target and the other side is scaled by the same factor,
  rounded to the nearest pixel and never below one pixel; with bounds on both sides and
  fit-inside, the side that needs the smaller factor decides; with
  \<^verbatim>\<open>withoutEnlargement\<close> an image that already fits is left as it is. A target below one
  pixel is refused, and fit-cover with both sides given (which the repository never
  asks for) is not modelled: both are \<open>None\<close>.
\<close>

definition round_div :: "int \<Rightarrow> int \<Rightarrow> int" where
  "round_div a b = (2 * a + b) div (2 * b)"

definition scaled_side :: "int \<Rightarrow> int \<Rightarrow> int \<Rightarrow> int" where
  "scaled_side other target side = max 1 (round_div (other * target) side)"

definition resize_dims :: "resize_options \<Rightarrow> int \<times> int \<Rightarrow> (int \<times> int) option" where
  "resize_dims opts d =
     (case d of (w, h) \<Rightarrow>
        (case resize_width opts of
           None \<Rightarrow>
             (case resize_height opts of
                None \<Rightarrow> Some (w, h)
              | Some H \<Rightarrow>
                  if H < 1 then None
                  else if resize_withoutEnlargement opts \<and> h \<le> H then Some (w, h)
                  else Some (scaled_side w H h, H))
         | Some W \<Rightarrow>
             (case resize_height opts of
                None \<Rightarrow>
                  if W < 1 then None
                  else if resize_withoutEnlargement opts \<and> w \<le> W then Some (w, h)
                  else Some (W, scaled_side h W w)
              | Some H \<Rightarrow>
                  if W < 1 \<or> H < 1 then None
                  else (case resize_fit opts of
                          FitCover \<Rightarrow> None
                        | FitInside \<Rightarrow>
                            if h * W \<le> w * H
                            then (if resize_withoutEnlargement opts \<and> w \<le> W then Some (w, h)
                                  else Some (W, scaled_side h W w))
                            else (if resize_withoutEnlargement opts \<and> h \<le> H then Some (w, h)
                                  else Some (scaled_side w H h, H))))))"

text \<open>The pixel size a chain produces from an image of a given size: only a resize changes it.\<close>

fun pipeline_dims :: "sharp_op list \<Rightarrow> int \<times> int \<Rightarrow> (int \<times> int) option" where
  "pipeline_dims [] d = Some d"
| "pipeline_dims (Resize opts # ops) d =
     (case resize_dims opts d of None \<Rightarrow> None | Some d' \<Rightarrow> pipeline_dims ops d')"
| "pipeline_dims (Jpeg q p # ops) d = pipeline_dims ops d"
| "pipeline_dims (Png c p # ops) d = pipeline_dims ops d"
| "pipeline_dims (Webp q # ops) d = pipeline_dims ops d"

section \<open>HTTP values\<close>

text \<open>The request handed to \<^verbatim>\<open>fetch\<close>; \<open>req_body\<close> is the value given to \<^verbatim>\<open>JSON.stringify\<close>.\<close>

record http_request =
  req_url :: string
  req_method :: string
  req_headers :: "(string \<times> string) list"
  req_body :: json

text \<open>
  The response of the POST, as it is when \<^verbatim>\<open>fetch\<close> resolves (the status line and the
  headers have arrived): \<^verbatim>\<open>response.ok\<close>, \<^verbatim>\<open>response.status\<close>, and the promises
  \<^verbatim>\<open>response.text()\<close> and \<^verbatim>\<open>response.json()\<close>, which read the body: each may fulfil,
  reject, or stay pending when the body never arrives.
\<close>

record http_response =
  rsp_ok :: bool
  rsp_status :: nat
  rsp_text :: "(thrown + string) promise"
  rsp_json :: "(thrown + json) promise"

text \<open>
  How the \<^verbatim>\<open>fetch\<close> promise behaves when nothing aborts it: it settles after so many
  milliseconds (resolved with a response or rejected), or it never settles.
\<close>

datatype fetch_behaviour = Settles nat "thrown + http_response" | NeverSettles

text \<open>
  What the analysis service does to the world, in order: a request sent, the request
  aborted, a UUID drawn from the random generator.
\<close>

datatype effect = Sent http_request | Aborted | DrewUUID

text \<open>The response of the GET that loads an image from a URL.\<close>

record get_response =
  get_ok :: bool
  get_status :: nat
  get_statusText :: string
  get_arrayBuffer :: "thrown + buffer"

section \<open>The collaborators\<close>

text \<open>
  Everything outside the repository that the program calls: the image library, the file
  system, the HTTP client, the URL parser, the random generator and the clock. Each is
  a parameter; a rejected promise or a thrown exception is \<open>Inl\<close>.
  \<open>sharp_build\<close> is what building a chain \<^verbatim>\<open>sharp(data).op(...)...\<close> throws on the spot
  (the constructor or an option check), if anything; \<open>sharp_metadata_of\<close> is
  \<^verbatim>\<open>sharp(data).metadata()\<close>; \<open>sharp_toBuffer\<close> is a chain built and run to its end.
  \<open>url_protocol\<close> is \<^verbatim>\<open>new URL(s).protocol\<close> (\<open>None\<close> when the constructor throws),
  \<open>fs_access\<close> gives the error \<^verbatim>\<open>fs.access\<close> rejects with, if any.
  \<open>crypto_randomUUID k\<close> is the value of the \<open>k\<close>-th call of \<^verbatim>\<open>crypto.randomUUID()\<close> in
  the life of the process, counted from 0, and \<open>uuids_drawn\<close> is how many calls have
  been made so far: the next call returns \<open>crypto_randomUUID (uuids_drawn env)\<close>.
  The file system and the image host are taken to answer; the model endpoint may not.
\<close>

record env =
  captured_stack :: string
  sharp_build :: "buffer \<Rightarrow> sharp_op list \<Rightarrow> thrown option"
  sharp_metadata_of :: "buffer \<Rightarrow> thrown + sharp_metadata"
  sharp_toBuffer :: "buffer \<Rightarrow> sharp_op list \<Rightarrow> thrown + buffer"
  buffer_base64 :: "buffer \<Rightarrow> string"
  fs_access :: "string \<Rightarrow> thrown option"
  fs_readFileSync :: "string \<Rightarrow> thrown + buffer"
  path_resolve :: "string \<Rightarrow> string"
  url_protocol :: "string \<Rightarrow> string option"
  fetch_get :: "string \<Rightarrow> thrown + get_response"
  fetch_post :: "http_request \<Rightarrow> fetch_behaviour"
  crypto_randomUUID :: "nat \<Rightarrow> string"
  uuids_drawn :: nat
  date_now :: nat

text \<open>The world after some effects: the generator has moved on by the UUIDs drawn.\<close>

definition world_after :: "env \<Rightarrow> effect list \<Rightarrow> env" where
  "world_after env effects =
     env \<lparr> uuids_drawn := uuids_drawn env + count_list effects DrewUUID \<rparr>"

text \<open>
  Reading the property \<open>k\<close> of \<^verbatim>\<open>undefined\<close> or \<^verbatim>\<open>null\<close> throws a \<^verbatim>\<open>TypeError\<close>,
  whose message in Node quotes the property: \<^verbatim>\<open>Cannot read properties of null (reading 'k')\<close>.
\<close>

definition type_error :: "env \<Rightarrow> string \<Rightarrow> string \<Rightarrow> thrown" where
  "type_error env what k =
     Thrown (JsError OtherError ''TypeError''
       (''Cannot read properties of '' @ what @ '' (reading '' @ [CHR 0x27] @ k @ [CHR 0x27]
          @ '')'')
       (captured_stack env) None)"

text \<open>\<^verbatim>\<open>x.k\<close> for any \<open>x\<close>.\<close>

definition js_get :: "env \<Rightarrow> json option \<Rightarrow> string \<Rightarrow> thrown + json option" where
  "js_get env x k =
     (case x of
        None \<Rightarrow> Inl (type_error env ''undefined'' k)
      | Some JNull \<Rightarrow> Inl (type_error env ''null'' k)
      | Some v \<Rightarrow> Inr (js_member v k))"

section \<open>ImageProcessor\<close>

text \<open>
  Each \<^verbatim>\<open>try { ... } catch (error) { ... }\<close> of the source is a pair of definitions: the
  body, whose \<open>Inl\<close> is what it throws, and the function, which applies the handler.
  Logging is left out: the program never reads it back.
\<close>

definition isUrl :: "env \<Rightarrow> string \<Rightarrow> bool" where
  "isUrl env source =
     (case url_protocol env source of
        None \<Rightarrow> False
      | Some p \<Rightarrow> p = ''http:'' \<or> p = ''https:'')"

definition validateImage_try :: "AppConfig \<Rightarrow> env \<Rightarrow> buffer \<Rightarrow> thrown + bool" where
  "validateImage_try cfg env imageData =
     (case sharp_metadata_of env imageData of
        Inl error \<Rightarrow> Inl error
      | Inr metadata \<Rightarrow>
          if falsy_str (sharp_format metadata)
             \<or> \<not> list_includes (supportedFormats (image_cfg cfg)) (sharp_format metadata)
          then Inr False
          else if maxSizeBytes (image_cfg cfg) < length imageData
          then Inr False
          else if falsy_num (sharp_width metadata) \<or> falsy_num (sharp_height metadata)
                  \<or> less_than_one (sharp_width metadata) \<or> less_than_one (sharp_height metadata)
          then Inr False
          else Inr True)"

definition validateImage :: "AppConfig \<Rightarrow> env \<Rightarrow> buffer \<Rightarrow> thrown + bool" where
  "validateImage cfg env imageData =
     (case validateImage_try cfg env imageData of
        Inl error \<Rightarrow> Inr False
      | Inr b \<Rightarrow> Inr b)"

definition extractMetadata :: "env \<Rightarrow> buffer \<Rightarrow> thrown + ImageMetadata" where
  "extractMetadata env imageData =
     (case sharp_metadata_of env imageData of
        Inl error \<Rightarrow>
          Inl (Thrown (new_ImageProcessingError (captured_stack env)
                 ''Failed to extract image metadata'' (as_Error error)))
      | Inr metadata \<Rightarrow>
          Inr \<lparr> md_width = Some (num_or (sharp_width metadata) 0),
                md_height = Some (num_or (sharp_height metadata) 0),
                md_format = Some (str_or (sharp_format metadata) ''unknown''),
                md_size = Some (length imageData),
                md_hasAlpha = Some (bool_or (sharp_hasAlpha metadata) False),
                md_colorSpace = Some (str_or (sharp_space metadata) ''unknown''),
                md_density = (if falsy_num (sharp_density metadata) then None
                              else sharp_density metadata) \<rparr>)"

text \<open>
  \<^verbatim>\<open>optimizeImage\<close>, in the order of the source: the chain \<^verbatim>\<open>sharp(imageData)\<close> is
  built, with its resize when \<^verbatim>\<open>maxWidth || maxHeight\<close> is truthy, then the metadata is
  read, then the compression that follows the decoded format is added and the chain
  runs. Whatever the image library throws at any of these steps reaches the same handler.
\<close>

definition optimize_resize :: "int option \<Rightarrow> int option \<Rightarrow> sharp_op list" where
  "optimize_resize maxWidth maxHeight =
     (if falsy_num maxWidth \<and> falsy_num maxHeight then []
      else [Resize \<lparr> resize_width = maxWidth, resize_height = maxHeight,
                     resize_fit = FitInside, resize_withoutEnlargement = True \<rparr>])"

definition optimize_compress :: "AppConfig \<Rightarrow> string option \<Rightarrow> sharp_op list" where
  "optimize_compress cfg fmt =
     (if fmt = Some ''jpeg'' then [Jpeg (quality (image_cfg cfg)) True]
      else if fmt = Some ''png'' then [Png 9 True]
      else if fmt = Some ''webp'' then [Webp (quality (image_cfg cfg))]
      else [])"

definition optimizeImage_try ::
  "AppConfig \<Rightarrow> env \<Rightarrow> buffer \<Rightarrow> int option \<Rightarrow> int option \<Rightarrow> thrown + buffer" where
  "optimizeImage_try cfg env imageData maxWidth maxHeight =
     (case sharp_build env imageData (optimize_resize maxWidth maxHeight) of
        Some error \<Rightarrow> Inl error
      | None \<Rightarrow>
          (case sharp_metadata_of env imageData of
             Inl error \<Rightarrow> Inl error
           | Inr metadata \<Rightarrow>
               sharp_toBuffer env imageData
                 (optimize_resize maxWidth maxHeight
                    @ optimize_compress cfg (sharp_format metadata))))"

definition optimizeImage ::
  "AppConfig \<Rightarrow> env \<Rightarrow> buffer \<Rightarrow> int option \<Rightarrow> int option \<Rightarrow> thrown + buffer" where
  "optimizeImage cfg env imageData maxWidth maxHeight =
     (case optimizeImage_try cfg env imageData maxWidth maxHeight of
        Inl error \<Rightarrow>
          Inl (Thrown (new_ImageProcessingError (captured_stack env)
                 ''Failed to optimize image'' (as_Error error)))
      | Inr out \<Rightarrow> Inr out)"

definition loadFromFile_try :: "AppConfig \<Rightarrow> env \<Rightarrow> string \<Rightarrow> thrown + ImageSource" where
  "loadFromFile_try cfg env filePath =
     (case fs_access env filePath of
        Some error \<Rightarrow> Inl error
      | None \<Rightarrow>
          (case fs_readFileSync env filePath of
             Inl error \<Rightarrow> Inl error
           | Inr data \<Rightarrow>
               (case validateImage cfg env data of
                  Inl error \<Rightarrow> Inl error
                | Inr valid \<Rightarrow>
                    if valid
                    then (case extractMetadata env data of
                            Inl error \<Rightarrow> Inl error
                          | Inr metadata \<Rightarrow>
                              Inr \<lparr> src_type = File,
                                    src_path = Some (path_resolve env filePath),
                                    src_data = Some data,
                                    src_url = None,
                                    src_metadata = Some metadata \<rparr>)
                    else Inl (Thrown (new_InvalidImageError (captured_stack env)
                                (''Invalid image file: '' @ filePath))))))"

definition loadFromFile_catch :: "env \<Rightarrow> string \<Rightarrow> thrown \<Rightarrow> thrown" where
  "loadFromFile_catch env filePath error =
     (if (case error of
            Thrown x \<Rightarrow> str_includes (err_message x) ''ENOENT''
          | ThrownNonError \<Rightarrow> False)
      then Thrown (new_ImageNotFoundError (captured_stack env) (''File not found: '' @ filePath))
      else if instance_of error InvalidImageError then error
      else Thrown (new_ImageProcessingError (captured_stack env)
             (''Failed to load file: '' @ filePath) (as_Error error)))"

definition loadFromFile :: "AppConfig \<Rightarrow> env \<Rightarrow> string \<Rightarrow> thrown + ImageSource" where
  "loadFromFile cfg env filePath =
     (case loadFromFile_try cfg env filePath of
        Inl error \<Rightarrow> Inl (loadFromFile_catch env filePath error)
      | Inr imageSource \<Rightarrow> Inr imageSource)"

definition loadFromUrl_try :: "AppConfig \<Rightarrow> env \<Rightarrow> string \<Rightarrow> thrown + ImageSource" where
  "loadFromUrl_try cfg env url =
     (case fetch_get env url of
        Inl error \<Rightarrow> Inl error
      | Inr response \<Rightarrow>
          if get_ok response
          then (case get_arrayBuffer response of
                  Inl error \<Rightarrow> Inl error
                | Inr data \<Rightarrow>
                    (case validateImage cfg env data of
                       Inl error \<Rightarrow> Inl error
                     | Inr valid \<Rightarrow>
                         if valid
                         then (case extractMetadata env data of
                                 Inl error \<Rightarrow> Inl error
                               | Inr metadata \<Rightarrow>
                                   Inr \<lparr> src_type = Url,
                                         src_path = Some url,
                                         src_data = Some data,
                                         src_url = None,
                                         src_metadata = Some metadata \<rparr>)
                         else Inl (Thrown (new_InvalidImageError (captured_stack env)
                                     (''Invalid image from URL: '' @ url)))))
          else Inl (Thrown (new_Error (captured_stack env)
                      (''HTTP '' @ number_to_string (get_status response) @ '': ''
                         @ get_statusText response))))"

definition loadFromUrl_catch :: "env \<Rightarrow> string \<Rightarrow> thrown \<Rightarrow> thrown" where
  "loadFromUrl_catch env url error =
     (if instance_of error InvalidImageError then error
      else Thrown (new_ImageProcessingError (captured_stack env)
             (''Failed to load image from URL: '' @ url) (as_Error error)))"

definition loadFromUrl :: "AppConfig \<Rightarrow> env \<Rightarrow> string \<Rightarrow> thrown + ImageSource" where
  "loadFromUrl cfg env url =
     (case loadFromUrl_try cfg env url of
        Inl error \<Rightarrow> Inl (loadFromUrl_catch env url error)
      | Inr imageSource \<Rightarrow> Inr imageSource)"

definition loadImage_catch :: "env \<Rightarrow> string \<Rightarrow> thrown \<Rightarrow> thrown" where
  "loadImage_catch env source error =
     (if instance_of error ImageNotFoundError \<or> instance_of error InvalidImageError then error
      else Thrown (new_ImageProcessingError (captured_stack env)
             (''Failed to load image from source: '' @ source) (as_Error error)))"

definition loadImage :: "AppConfig \<Rightarrow> env \<Rightarrow> string \<Rightarrow> thrown + ImageSource" where
  "loadImage cfg env source =
     (case (if isUrl env source then loadFromUrl cfg env source
            else loadFromFile cfg env source) of
        Inl error \<Rightarrow> Inl (loadImage_catch env source error)
      | Inr imageSource \<Rightarrow> Inr imageSource)"

section \<open>OpenRouterService\<close>

definition MAX_DIMENSION :: int where
  "MAX_DIMENSION = 1024"

definition JPEG_QUALITY :: int where
  "JPEG_QUALITY = 80"

text \<open>
  The chain \<^verbatim>\<open>prepareImageForAPI\<close> builds for an image whose decoded width and height
  are both truthy. \<^verbatim>\<open>.resize({width: n})\<close> leaves every other option at its default.
\<close>

definition api_pipeline :: "int \<Rightarrow> int \<Rightarrow> sharp_op list" where
  "api_pipeline w h =
     (if MAX_DIMENSION < max w h
      then [Resize (if h < w
                    then \<lparr> resize_width = Some MAX_DIMENSION, resize_height = None,
                           resize_fit = FitCover, resize_withoutEnlargement = False \<rparr>
                    else \<lparr> resize_width = None, resize_height = Some MAX_DIMENSION,
                           resize_fit = FitCover, resize_withoutEnlargement = False \<rparr>),
            Jpeg JPEG_QUALITY False]
      else [Jpeg JPEG_QUALITY False])"

text \<open>\<^verbatim>\<open>metadata.width && metadata.height\<close>: both present and non-zero.\<close>

definition truthy_dims :: "sharp_metadata \<Rightarrow> (int \<times> int) option" where
  "truthy_dims metadata =
     (case sharp_width metadata of
        None \<Rightarrow> None
      | Some w \<Rightarrow>
          (case sharp_height metadata of
             None \<Rightarrow> None
           | Some h \<Rightarrow> if w = 0 \<or> h = 0 then None else Some (w, h)))"

definition prepareImageForAPI :: "env \<Rightarrow> ImageSource \<Rightarrow> thrown + string" where
  "prepareImageForAPI env imageSource =
     (case src_data imageSource of
        None \<Rightarrow>
          Inl (Thrown (new_ImageAnalysisError (captured_stack env)
                 ''Image data is required for analysis'' None))
      | Some data \<Rightarrow>
          (case sharp_metadata_of env data of
             Inl error \<Rightarrow> Inl error
           | Inr metadata \<Rightarrow>
               (case (case truthy_dims metadata of
                        None \<Rightarrow> Inr data
                      | Some (w, h) \<Rightarrow> sharp_toBuffer env data (api_pipeline w h)) of
                  Inl error \<Rightarrow> Inl error
                | Inr resizedBuffer \<Rightarrow>
                    Inr (''data:image/jpeg;base64,'' @ buffer_base64 env resizedBuffer))))"

definition requestBody :: "string \<Rightarrow> string \<Rightarrow> string \<Rightarrow> json" where
  "requestBody base64Image prompt model =
     JObject
       [(''model'', JString model),
        (''messages'',
           JArray
             [JObject
                [(''role'', JString ''user''),
                 (''content'',
                    JArray
                      [JObject [(''type'', JString ''text''), (''text'', JString prompt)],
                       JObject [(''type'', JString ''image_url''),
                                (''image_url'', JObject [(''url'', JString base64Image)])]])]]),
        (''max_tokens'', JNumber 1000)]"

definition api_request :: "AppConfig \<Rightarrow> string \<Rightarrow> string \<Rightarrow> string \<Rightarrow> http_request" where
  "api_request cfg base64Image prompt model =
     \<lparr> req_url = baseUrl (openRouter cfg) @ ''/chat/completions'',
       req_method = ''POST'',
       req_headers =
         [(''Authorization'', ''Bearer '' @ apiKey (openRouter cfg)),
          (''Content-Type'', ''application/json''),
          (''HTTP-Referer'', httpReferer (openRouter cfg)),
          (''X-Title'', ''Vision MCP Server'')],
       req_body = requestBody base64Image prompt model \<rparr>"

text \<open>What the HTTP client rejects with once \<^verbatim>\<open>controller.abort()\<close> has run.\<close>

definition abort_error :: "env \<Rightarrow> js_error" where
  "abort_error env =
     JsError OtherError ''AbortError'' ''The operation was aborted.'' (captured_stack env) None"

text \<open>
  The delay \<^verbatim>\<open>setTimeout\<close> gives a timer: Node sets a delay below 1 or above
  2147483647 to 1.
\<close>

definition TIMEOUT_MAX :: nat where
  "TIMEOUT_MAX = 2147483647"

definition timer_delay :: "nat \<Rightarrow> nat" where
  "timer_delay ms = (if ms < 1 \<or> TIMEOUT_MAX < ms then 1 else ms)"

text \<open>\<^verbatim>\<open>!data.choices || data.choices.length === 0\<close>\<close>

definition no_choices :: "json option \<Rightarrow> bool" where
  "no_choices choices =
     (case choices of
        None \<Rightarrow> True
      | Some v \<Rightarrow> if truthy_value v then js_length v = Some (JNumber 0) else True)"

text \<open>
  The body of the \<^verbatim>\<open>try\<close> once \<^verbatim>\<open>fetch\<close> has settled. By then the timer is cleared:
  nothing bounds the reading of the body.
\<close>

definition callOpenRouterAPI_settled ::
  "env \<Rightarrow> thrown + http_response \<Rightarrow> (thrown + json) promise" where
  "callOpenRouterAPI_settled env settled =
     (case settled of
        Inl error \<Rightarrow> Settled (Inl error)
      | Inr response \<Rightarrow>
          if rsp_ok response
          then (case rsp_json response of
                  Pending \<Rightarrow> Pending
                | Settled (Inl error) \<Rightarrow> Settled (Inl error)
                | Settled (Inr data) \<Rightarrow>
                    (case js_get env (Some data) ''choices'' of
                       Inl error \<Rightarrow> Settled (Inl error)
                     | Inr choices \<Rightarrow>
                         if no_choices choices
                         then Settled (Inl (Thrown (new_Error (captured_stack env)
                                ''No choices returned from OpenRouter API'')))
                         else Settled (Inr data)))
          else (case rsp_text response of
                  Pending \<Rightarrow> Pending
                | Settled (Inl error) \<Rightarrow> Settled (Inl error)
                | Settled (Inr errorText) \<Rightarrow>
                    Settled (Inl (Thrown (new_Error (captured_stack env)
                      (''OpenRouter API error ('' @ number_to_string (rsp_status response)
                         @ ''): '' @ errorText))))))"

definition callOpenRouterAPI_catch :: "AppConfig \<Rightarrow> env \<Rightarrow> thrown \<Rightarrow> thrown" where
  "callOpenRouterAPI_catch cfg env error =
     (if (case error of Thrown x \<Rightarrow> err_name x = ''AbortError'' | ThrownNonError \<Rightarrow> False)
      then Thrown (new_Error (captured_stack env)
             (''Request timeout after '' @ number_to_string (timeout (openRouter cfg)) @ ''ms''))
      else error)"

text \<open>
  \<^verbatim>\<open>callOpenRouterAPI\<close>: one \<^verbatim>\<open>fetch\<close> under an abort signal, and a timer, set with the
  configured timeout, that aborts it. When the \<^verbatim>\<open>fetch\<close> promise has not settled by the
  time the timer fires, \<^verbatim>\<open>controller.abort()\<close> runs and the promise rejects with the
  client's \<^verbatim>\<open>AbortError\<close>. When it settles no later than that, the timer is cleared and
  the body is read with no timer running; if the body never arrives the call never
  returns. The second component lists the effects.
\<close>

definition callOpenRouterAPI ::
  "AppConfig \<Rightarrow> env \<Rightarrow> string \<Rightarrow> string \<Rightarrow> string
     \<Rightarrow> (thrown + json) promise \<times> effect list" where
  "callOpenRouterAPI cfg env base64Image prompt model =
     (let request = api_request cfg base64Image prompt model in
      case fetch_post env request of
        NeverSettles \<Rightarrow>
          (Settled (Inl (callOpenRouterAPI_catch cfg env (Thrown (abort_error env)))),
           [Sent request, Aborted])
      | Settles t settled \<Rightarrow>
          if timer_delay (timeout (openRouter cfg)) < t
          then (Settled (Inl (callOpenRouterAPI_catch cfg env (Thrown (abort_error env)))),
                [Sent request, Aborted])
          else (case callOpenRouterAPI_settled env settled of
                  Pending \<Rightarrow> (Pending, [Sent request])
                | Settled (Inl error) \<Rightarrow>
                    (Settled (Inl (callOpenRouterAPI_catch cfg env error)), [Sent request])
                | Settled (Inr data) \<Rightarrow> (Settled (Inr data), [Sent request])))"

text \<open>
  \<^verbatim>\<open>response.choices[0]?.message?.content\<close>: the member \<^verbatim>\<open>choices\<close>, its element 0
  (a \<^verbatim>\<open>TypeError\<close> when \<^verbatim>\<open>choices\<close> is \<^verbatim>\<open>undefined\<close> or \<^verbatim>\<open>null\<close>), then the optional chain.
\<close>

definition first_choice_content :: "env \<Rightarrow> json \<Rightarrow> thrown + json option" where
  "first_choice_content env response =
     (case js_get env (Some response) ''choices'' of
        Inl error \<Rightarrow> Inl error
      | Inr None \<Rightarrow> Inl (type_error env ''undefined'' ''0'')
      | Inr (Some JNull) \<Rightarrow> Inl (type_error env ''null'' ''0'')
      | Inr (Some choices) \<Rightarrow>
          Inr (opt_chain (opt_chain (js_first choices) ''message'') ''content''))"

text \<open>
  \<^verbatim>\<open>ImageAnalysisEntity.create\<close>: \<^verbatim>\<open>id || crypto.randomUUID()\<close> calls the generator only
  when the id is falsy; the effect records the call.
\<close>

definition create ::
  "env \<Rightarrow> ImageSource \<Rightarrow> string \<Rightarrow> json \<Rightarrow> ImageMetadata option \<Rightarrow> json option
     \<Rightarrow> json option \<Rightarrow> ImageAnalysis \<times> effect list" where
  "create env imageSource model analysis metadata usage ident =
     (\<lparr> ia_id = value_or ident (JString (crypto_randomUUID env (uuids_drawn env))),
        ia_imageSource = imageSource,
        ia_model = model,
        ia_analysis = analysis,
        ia_timestamp = date_now env,
        ia_metadata = metadata,
        ia_usage = usage \<rparr>,
      if truthy ident then [] else [DrewUUID])"

definition DEFAULT_PROMPT :: string where
  "DEFAULT_PROMPT = ''Analyze this image and describe what you see in detail.''"

definition no_content_error :: "env \<Rightarrow> thrown" where
  "no_content_error env =
     Thrown (new_ImageAnalysisError (captured_stack env)
       ''No analysis content received from API'' None)"

definition analyzeImage_try ::
  "AppConfig \<Rightarrow> env \<Rightarrow> ImageSource \<Rightarrow> string option \<Rightarrow> string option
     \<Rightarrow> (thrown + ImageAnalysis) promise \<times> effect list" where
  "analyzeImage_try cfg env imageSource model prompt =
     (let selectedModel = str_or model (defaultModel (openRouter cfg)) in
      case prepareImageForAPI env imageSource of
        Inl error \<Rightarrow> (Settled (Inl error), [])
      | Inr base64Image \<Rightarrow>
          (let analysisPrompt = str_or prompt DEFAULT_PROMPT in
           case callOpenRouterAPI cfg env base64Image analysisPrompt selectedModel of
             (Pending, effects) \<Rightarrow> (Pending, effects)
           | (Settled (Inl error), effects) \<Rightarrow> (Settled (Inl error), effects)
           | (Settled (Inr response), effects) \<Rightarrow>
               (case first_choice_content env response of
                  Inl error \<Rightarrow> (Settled (Inl error), effects)
                | Inr None \<Rightarrow> (Settled (Inl (no_content_error env)), effects)
                | Inr (Some analysis) \<Rightarrow>
                    if truthy_value analysis
                    then (case create env imageSource selectedModel analysis None
                                 (js_member response ''usage'') (js_member response ''id'') of
                            (entity, drawn) \<Rightarrow> (Settled (Inr entity), effects @ drawn))
                    else (Settled (Inl (no_content_error env)), effects))))"

definition analyzeImage_catch :: "env \<Rightarrow> thrown \<Rightarrow> thrown" where
  "analyzeImage_catch env error =
     (if instance_of error ImageAnalysisError then error
      else Thrown (new_ImageAnalysisError (captured_stack env)
             (''OpenRouter API call failed: '' @ message_or_unknown error) (as_Error error)))"

definition analyzeImage ::
  "AppConfig \<Rightarrow> env \<Rightarrow> ImageSource \<Rightarrow> string option \<Rightarrow> string option
     \<Rightarrow> (thrown + ImageAnalysis) promise \<times> effect list" where
  "analyzeImage cfg env imageSource model prompt =
     (case analyzeImage_try cfg env imageSource model prompt of
        (Pending, effects) \<Rightarrow> (Pending, effects)
      | (Settled (Inl error), effects) \<Rightarrow> (Settled (Inl (analyzeImage_catch env error)), effects)
      | (Settled (Inr result), effects) \<Rightarrow> (Settled (Inr result), effects))"

section \<open>AnalyzeImageUseCase\<close>

definition execute_try ::
  "AppConfig \<Rightarrow> env \<Rightarrow> string \<Rightarrow> string option \<Rightarrow> string option
     \<Rightarrow> (thrown + ImageAnalysis) promise \<times> effect list" where
  "execute_try cfg env source model prompt =
     (case loadImage cfg env source of
        Inl error \<Rightarrow> (Settled (Inl error), [])
      | Inr imageSource \<Rightarrow>
          (case src_data imageSource of
             None \<Rightarrow>
               (Settled (Inl (Thrown (new_ImageProcessingError (captured_stack env)
                          ''Failed to load image data'' None))), [])
           | Some data \<Rightarrow>
               (case validateImage cfg env data of
                  Inl error \<Rightarrow> (Settled (Inl error), [])
                | Inr isValid \<Rightarrow>
                    if isValid then analyzeImage cfg env imageSource model prompt
                    else (Settled (Inl (Thrown (new_ImageProcessingError (captured_stack env)
                                    ''Invalid image format or size'' None))), []))))"

definition execute_catch :: "env \<Rightarrow> thrown \<Rightarrow> thrown" where
  "execute_catch env error =
     (if instance_of error ImageProcessingError \<or> instance_of error ImageAnalysisError
      then error
      else Thrown (new_ImageAnalysisError (captured_stack env)
             ''Unexpected error during vision analysis'' (as_Error error)))"

definition execute ::
  "AppConfig \<Rightarrow> env \<Rightarrow> string \<Rightarrow> string option \<Rightarrow> string option
     \<Rightarrow> (thrown + ImageAnalysis) promise \<times> effect list" where
  "execute cfg env source model prompt =
     (case execute_try cfg env source model prompt of
        (Pending, effects) \<Rightarrow> (Pending, effects)
      | (Settled (Inl error), effects) \<Rightarrow> (Settled (Inl (execute_catch env error)), effects)
      | (Settled (Inr analysis), effects) \<Rightarrow> (Settled (Inr analysis), effects))"

section \<open>ImageAnalysisController\<close>









section \<open>Observations and sample collaborators\<close>

text \<open>A result that is a failure of the given class.\<close>

definition fails_with :: "thrown + 'a \<Rightarrow> error_class \<Rightarrow> bool" where
  "fails_with r c = (case r of Inl e \<Rightarrow> instance_of e c | Inr x \<Rightarrow> False)"

text \<open>A promise that has rejected with a failure of the given class.\<close>

definition rejects_with :: "(thrown + 'a) promise \<Rightarrow> error_class \<Rightarrow> bool" where
  "rejects_with p c = (case p of Settled r \<Rightarrow> fails_with r c | Pending \<Rightarrow> False)"

text \<open>The requests among the effects.\<close>

fun requests_sent :: "effect list \<Rightarrow> http_request list" where
  "requests_sent [] = []"
| "requests_sent (Sent r # es) = r # requests_sent es"
| "requests_sent (Aborted # es) = requests_sent es"
| "requests_sent (DrewUUID # es) = requests_sent es"

text \<open>
  One concrete set of collaborators, for running the program: a decoder that reports a
  2000 x 1000 JPEG for every non-empty buffer and rejects the empty one, a file system
  that holds only \<^verbatim>\<open>local.jpg\<close>, an image host that answers 404, a model endpoint
  that answers after 1200 ms with one choice, and a generator whose \<open>k\<close>-th UUID ends in
  \<open>k\<close> strokes.
\<close>

definition sample_bytes :: buffer where
  "sample_bytes = [0xFF, 0xD8, 0xFF, 0xE0]"

definition sample_metadata :: sharp_metadata where
  "sample_metadata =
     \<lparr> sharp_width = Some 2000, sharp_height = Some 1000, sharp_format = Some ''jpeg'',
       sharp_hasAlpha = Some False, sharp_space = Some ''srgb'', sharp_density = Some 72 \<rparr>"

definition sample_usage :: json where
  "sample_usage =
     JObject [(''prompt_tokens'', JNumber 900), (''completion_tokens'', JNumber 4),
              (''total_tokens'', JNumber 904)]"

text \<open>A body with one choice whose message has the given content.\<close>

definition body_with_content :: "json \<Rightarrow> json" where
  "body_with_content content =
     JObject
       [(''id'', JString ''gen-1''),
        (''model'', JString ''anthropic/claude-3.5-sonnet''),
        (''choices'',
           JArray [JObject [(''message'',
                      JObject [(''role'', JString ''assistant''), (''content'', content)])]]),
        (''usage'', sample_usage)]"

definition sample_body :: json where
  "sample_body = body_with_content (JString ''A cat.'')"

definition response_with :: "(thrown + json) promise \<Rightarrow> http_response" where
  "response_with parsed =
     \<lparr> rsp_ok = True, rsp_status = 200, rsp_text = Settled (Inr []), rsp_json = parsed \<rparr>"

definition sample_response :: http_response where
  "sample_response = response_with (Settled (Inr sample_body))"

definition sample_uuid :: "nat \<Rightarrow> string" where
  "sample_uuid k = ''uuid-'' @ replicate k (CHR ''i'')"

definition sample_env :: env where
  "sample_env =
     \<lparr> captured_stack = ''at <anonymous>'',
       sharp_build = (\<lambda>b ops. None),
       sharp_metadata_of =
         (\<lambda>b. if b = [] then Inl (Thrown (new_Error ''at sharp'' ''Input Buffer is empty''))
              else Inr sample_metadata),
       sharp_toBuffer = (\<lambda>b ops. Inr [0xFF, 0xD8, 0xFF, 0xDB]),
       buffer_base64 = (\<lambda>b. ''/9j/2w==''),
       fs_access =
         (\<lambda>p. if p = ''local.jpg'' then None
              else Some (Thrown (new_Error ''at fs''
                     (''ENOENT: no such file or directory, access '' @ p)))),
       fs_readFileSync = (\<lambda>p. Inr sample_bytes),
       path_resolve = (\<lambda>p. ''/srv/'' @ p),
       url_protocol =
         (\<lambda>s. if startsWith s ''https://'' then Some ''https:''
              else if startsWith s ''http://'' then Some ''http:''
              else None),
       fetch_get =
         (\<lambda>u. Inr \<lparr> get_ok = False, get_status = 404, get_statusText = ''Not Found'',
                     get_arrayBuffer = Inr [] \<rparr>),
       fetch_post = (\<lambda>r. Settles 1200 (Inr sample_response)),
       crypto_randomUUID = sample_uuid,
       uuids_drawn = 0,
       date_now = 1700000000 \<rparr>"

definition bare_decoder_env :: env where
  "bare_decoder_env =
     sample_env \<lparr> sharp_metadata_of :=
       (\<lambda>b. Inr \<lparr> sharp_width = None, sharp_height = None, sharp_format = None,
                   sharp_hasAlpha = None, sharp_space = None, sharp_density = None \<rparr>) \<rparr>"

text \<open>An endpoint that never answers.\<close>

definition hanging_env :: env where
  "hanging_env = sample_env \<lparr> fetch_post := (\<lambda>r. NeverSettles) \<rparr>"

text \<open>An endpoint that answers after 800 ms with an empty list of choices.\<close>

definition no_choices_body :: json where
  "no_choices_body = JObject [(''id'', JString ''gen-2''), (''choices'', JArray [])]"

definition no_choices_env :: env where
  "no_choices_env =
     sample_env \<lparr> fetch_post :=
       (\<lambda>r. Settles 800 (Inr (response_with (Settled (Inr no_choices_body))))) \<rparr>"

text \<open>An endpoint that sends the status line and the headers after 1200 ms, and then no body.\<close>

definition stalled_body_env :: env where
  "stalled_body_env =
     sample_env \<lparr> fetch_post := (\<lambda>r. Settles 1200 (Inr (response_with Pending))) \<rparr>"

text \<open>An endpoint whose first choice has the number 42 as content.\<close>

definition numeric_content_env :: env where
  "numeric_content_env =
     sample_env \<lparr> fetch_post :=
       (\<lambda>r. Settles 1200 (Inr (response_with (Settled (Inr (body_with_content (JNumber 42))))))) \<rparr>"

text \<open>An endpoint whose first choice has an empty array as content.\<close>

definition array_content_env :: env where
  "array_content_env =
     sample_env \<lparr> fetch_post :=
       (\<lambda>r. Settles 1200 (Inr (response_with (Settled (Inr (body_with_content (JArray []))))))) \<rparr>"


text \<open>An endpoint that answers with a body that has no id.\<close>

definition anonymous_body :: json where
  "anonymous_body =
     JObject
       [(''choices'',
           JArray [JObject [(''message'', JObject [(''content'', JString ''A dog.'')])]])]"

definition anonymous_env :: env where
  "anonymous_env =
     sample_env \<lparr> fetch_post :=
       (\<lambda>r. Settles 900 (Inr (response_with (Settled (Inr anonymous_body))))) \<rparr>"

definition failing_encoder_env :: env where
  "failing_encoder_env =
     sample_env \<lparr> sharp_toBuffer :=
       (\<lambda>b ops. Inl (Thrown (new_Error ''at sharp'' ''VipsJpeg: Premature end of input file''))) \<rparr>"

definition sample_source :: ImageSource where
  "sample_source =
     \<lparr> src_type = File, src_path = Some ''/srv/local.jpg'', src_data = Some sample_bytes,
       src_url = None, src_metadata = None \<rparr>"

section \<open>Facts about the helpers\<close>

lemmas js_defs =
  falsy_str_def falsy_num_def str_or_def num_or_def bool_or_def less_than_one_def
  list_includes_def

lemmas error_defs =
  new_Error_def new_ImageProcessingError_def new_ImageAnalysisError_def
  new_InvalidImageError_def new_ImageNotFoundError_def instance_of_def as_Error_def
  message_or_unknown_def fails_with_def

lemma sample_env_fields:
  "captured_stack sample_env = ''at <anonymous>''"
  "sharp_build sample_env b ops = None"
  "sharp_metadata_of sample_env b =
     (if b = [] then Inl (Thrown (new_Error ''at sharp'' ''Input Buffer is empty''))
      else Inr sample_metadata)"
  "sharp_toBuffer sample_env b ops = Inr [0xFF, 0xD8, 0xFF, 0xDB]"
  "buffer_base64 sample_env b = ''/9j/2w==''"
  "fs_access sample_env p =
     (if p = ''local.jpg'' then None
      else Some (Thrown (new_Error ''at fs''
             (''ENOENT: no such file or directory, access '' @ p))))"
  "fs_readFileSync sample_env p = Inr sample_bytes"
  "path_resolve sample_env p = ''/srv/'' @ p"
  "url_protocol sample_env s =
     (if startsWith s ''https://'' then Some ''https:''
      else if startsWith s ''http://'' then Some ''http:''
      else None)"
  "fetch_get sample_env u =
     Inr \<lparr> get_ok = False, get_status = 404, get_statusText = ''Not Found'',
           get_arrayBuffer = Inr [] \<rparr>"
  "fetch_post sample_env r = Settles 1200 (Inr sample_response)"
  "crypto_randomUUID sample_env = sample_uuid"
  "uuids_drawn sample_env = 0"
  "date_now sample_env = 1700000000"
  by (simp_all add: sample_env_def)

section \<open>Validation (claim C5)\<close>

lemma validateImage_total:
  "validateImage cfg env bytes = Inr True \<or> validateImage cfg env bytes = Inr False"
  by (auto simp: validateImage_def split: sum.splits)

lemma validateImage_True_iff:
  "validateImage cfg env bytes = Inr True \<longleftrightarrow>
     (\<exists>m fmt w h.
        sharp_metadata_of env bytes = Inr m
        \<and> sharp_format m = Some fmt \<and> fmt \<noteq> [] \<and> fmt \<in> set (supportedFormats (image_cfg cfg))
        \<and> length bytes \<le> maxSizeBytes (image_cfg cfg)
        \<and> sharp_width m = Some w \<and> 1 \<le> w
        \<and> sharp_height m = Some h \<and> 1 \<le> h)"
  by (auto simp: validateImage_def validateImage_try_def js_defs split: sum.splits option.splits)

lemma validateImage_decode_failure:
  "sharp_metadata_of env bytes = Inl e \<Longrightarrow> validateImage cfg env bytes = Inr False"
  by (simp add: validateImage_def validateImage_try_def)

text \<open>
  C5. \<^verbatim>\<open>validateImage\<close> never throws: it always returns \<open>True\<close> or \<open>False\<close>. It returns
  \<open>True\<close> exactly when the decoder reports a format of the configured list, the buffer
  is no longer than the configured maximum, and the reported width and height are both
  at least 1; so an unsupported or missing format, an oversized buffer, a width or
  height below 1 and a decode failure all give \<open>False\<close>. So does the empty buffer, which
  the image library refuses to decode ("Input Buffer is empty").
  By default the maximum is 10 MiB and the list holds jpeg, png, gif, bmp and webp (and
  \<^verbatim>\<open>jpg\<close>, a second spelling of jpeg).
\<close>

theorem validateImage_policy:
  "(validateImage cfg env bytes = Inr True \<or> validateImage cfg env bytes = Inr False)
   \<and> (validateImage cfg env bytes = Inr True \<longleftrightarrow>
        (\<exists>m fmt w h.
           sharp_metadata_of env bytes = Inr m
           \<and> sharp_format m = Some fmt \<and> fmt \<noteq> []
           \<and> fmt \<in> set (supportedFormats (image_cfg cfg))
           \<and> length bytes \<le> maxSizeBytes (image_cfg cfg)
           \<and> sharp_width m = Some w \<and> 1 \<le> w
           \<and> sharp_height m = Some h \<and> 1 \<le> h))
   \<and> ((\<exists>e. sharp_metadata_of env bytes = Inl e) \<longrightarrow> validateImage cfg env bytes = Inr False)
   \<and> ((\<exists>e. sharp_metadata_of env [] = Inl e) \<longrightarrow> validateImage cfg env [] = Inr False)
   \<and> maxSizeBytes (image_cfg (defaultConfig k)) = 10 * 1024 * 1024
   \<and> set (supportedFormats (image_cfg (defaultConfig k)))
       = {''jpeg'', ''png'', ''gif'', ''bmp'', ''webp'', ''jpg''}"
proof -
  have policy: "maxSizeBytes (image_cfg (defaultConfig k)) = 10 * 1024 * 1024"
    by (simp add: defaultConfig_def)
  have formats: "set (supportedFormats (image_cfg (defaultConfig k)))
       = {''jpeg'', ''png'', ''gif'', ''bmp'', ''webp'', ''jpg''}"
    by (auto simp: defaultConfig_def)
  show ?thesis
    using validateImage_total [of cfg env bytes] validateImage_True_iff [of cfg env bytes]
      validateImage_decode_failure [of env bytes _ cfg]
      validateImage_decode_failure [of env "[]" _ cfg] policy formats
    by blast
qed

theorem validateImage_policy_witness:
  "validateImage (defaultConfig ''key'') sample_env sample_bytes = Inr True
   \<and> validateImage (defaultConfig ''key'') sample_env [] = Inr False"
proof -
  note policy = validateImage_policy [of "defaultConfig ''key''" sample_env _ "''key''"]
  have decoded: "sharp_metadata_of sample_env sample_bytes = Inr sample_metadata"
    by (simp add: sample_env_fields sample_bytes_def)
  have small: "length sample_bytes \<le> maxSizeBytes (image_cfg (defaultConfig ''key''))"
    by (simp add: sample_bytes_def defaultConfig_def)
  have supported: "''jpeg'' \<in> set (supportedFormats (image_cfg (defaultConfig ''key'')))"
    by (simp add: defaultConfig_def)
  have accepted: "validateImage (defaultConfig ''key'') sample_env sample_bytes = Inr True"
    apply (rule iffD2 [OF policy [THEN conjunct2, THEN conjunct1]])
    apply (rule exI [of _ sample_metadata], rule exI [of _ "''jpeg''"])
    apply (rule exI [of _ 2000], rule exI [of _ 1000])
    using decoded small supported apply (simp add: sample_metadata_def)
    done
  have "\<exists>e. sharp_metadata_of sample_env [] = Inl e"
    by (simp add: sample_env_fields)
  then have rejected: "validateImage (defaultConfig ''key'') sample_env [] = Inr False"
    by (rule policy [THEN conjunct2, THEN conjunct2, THEN conjunct2, THEN conjunct1, rule_format])
  from accepted rejected show ?thesis by simp
qed

section \<open>Metadata extraction (claim C9)\<close>

lemma extractMetadata_failure:
  "sharp_metadata_of env bytes = Inl e \<Longrightarrow>
     extractMetadata env bytes =
       Inl (Thrown (new_ImageProcessingError (captured_stack env)
              ''Failed to extract image metadata'' (as_Error e)))"
  by (simp add: extractMetadata_def)

lemma extractMetadata_success:
  "sharp_metadata_of env bytes = Inr m \<Longrightarrow>
     \<exists>r. extractMetadata env bytes = Inr r
       \<and> md_width r = Some (case sharp_width m of None \<Rightarrow> 0 | Some w \<Rightarrow> w)
       \<and> md_height r = Some (case sharp_height m of None \<Rightarrow> 0 | Some h \<Rightarrow> h)
       \<and> md_format r =
           Some (case sharp_format m of
                   None \<Rightarrow> ''unknown''
                 | Some f \<Rightarrow> if f = [] then ''unknown'' else f)
       \<and> md_size r = Some (length bytes)
       \<and> md_hasAlpha r = Some (sharp_hasAlpha m = Some True)
       \<and> md_colorSpace r =
           Some (case sharp_space m of
                   None \<Rightarrow> ''unknown''
                 | Some s \<Rightarrow> if s = [] then ''unknown'' else s)
       \<and> md_density r = (if sharp_density m = Some 0 then None else sharp_density m)"
  by (auto simp: extractMetadata_def js_defs split: option.splits)

text \<open>
  C9, as the code has it. \<^verbatim>\<open>extractMetadata\<close> fails with an \<^verbatim>\<open>ImageProcessingError\<close>
  (carrying the decoder's error as cause) when decoding fails. Otherwise it returns
  metadata in which a width or height the decoder does not surface is reported as 0, a
  missing format or colour space as \<^verbatim>\<open>unknown\<close> and missing alpha information as
  \<open>False\<close>; the size is the byte length; only the density is left unset when the
  decoder gives none (or gives 0).
\<close>

theorem extractMetadata_fills_defaults:
  "(\<forall>e. sharp_metadata_of env bytes = Inl e \<longrightarrow>
      (\<exists>x. extractMetadata env bytes = Inl (Thrown x)
         \<and> err_class x = ImageProcessingError \<and> err_cause x = as_Error e))
   \<and> (\<forall>m. sharp_metadata_of env bytes = Inr m \<longrightarrow>
      (\<exists>r. extractMetadata env bytes = Inr r
         \<and> md_width r = Some (case sharp_width m of None \<Rightarrow> 0 | Some w \<Rightarrow> w)
         \<and> md_height r = Some (case sharp_height m of None \<Rightarrow> 0 | Some h \<Rightarrow> h)
         \<and> md_format r =
             Some (case sharp_format m of
                     None \<Rightarrow> ''unknown''
                   | Some f \<Rightarrow> if f = [] then ''unknown'' else f)
         \<and> md_size r = Some (length bytes)
         \<and> md_hasAlpha r = Some (sharp_hasAlpha m = Some True)
         \<and> md_colorSpace r =
             Some (case sharp_space m of
                     None \<Rightarrow> ''unknown''
                   | Some s \<Rightarrow> if s = [] then ''unknown'' else s)
         \<and> md_density r = (if sharp_density m = Some 0 then None else sharp_density m)))"
proof (intro conjI allI impI)
  fix e assume "sharp_metadata_of env bytes = Inl e"
  then show "\<exists>x. extractMetadata env bytes = Inl (Thrown x)
         \<and> err_class x = ImageProcessingError \<and> err_cause x = as_Error e"
    by (simp add: extractMetadata_failure new_ImageProcessingError_def)
next
  fix m assume "sharp_metadata_of env bytes = Inr m"
  then show "\<exists>r. extractMetadata env bytes = Inr r
         \<and> md_width r = Some (case sharp_width m of None \<Rightarrow> 0 | Some w \<Rightarrow> w)
         \<and> md_height r = Some (case sharp_height m of None \<Rightarrow> 0 | Some h \<Rightarrow> h)
         \<and> md_format r =
             Some (case sharp_format m of
                     None \<Rightarrow> ''unknown''
                   | Some f \<Rightarrow> if f = [] then ''unknown'' else f)
         \<and> md_size r = Some (length bytes)
         \<and> md_hasAlpha r = Some (sharp_hasAlpha m = Some True)
         \<and> md_colorSpace r =
             Some (case sharp_space m of
                     None \<Rightarrow> ''unknown''
                   | Some s \<Rightarrow> if s = [] then ''unknown'' else s)
         \<and> md_density r = (if sharp_density m = Some 0 then None else sharp_density m)"
    by (rule extractMetadata_success)
qed

theorem extractMetadata_fills_defaults_witness:
  "(\<exists>x. extractMetadata sample_env [] = Inl (Thrown x)
      \<and> err_class x = ImageProcessingError
      \<and> err_cause x = Some (new_Error ''at sharp'' ''Input Buffer is empty''))
   \<and> (\<exists>r. extractMetadata sample_env sample_bytes = Inr r
      \<and> md_width r = Some 2000 \<and> md_height r = Some 1000 \<and> md_format r = Some ''jpeg''
      \<and> md_size r = Some 4 \<and> md_hasAlpha r = Some False
      \<and> md_colorSpace r = Some ''srgb'' \<and> md_density r = Some 72)"
proof -
  note facts = extractMetadata_fills_defaults [of sample_env]
  have "sharp_metadata_of sample_env [] = Inl (Thrown (new_Error ''at sharp'' ''Input Buffer is empty''))"
    by (simp add: sample_env_fields)
  from facts [of "[]", THEN conjunct1, rule_format, OF this]
  have failing: "\<exists>x. extractMetadata sample_env [] = Inl (Thrown x)
      \<and> err_class x = ImageProcessingError
      \<and> err_cause x = Some (new_Error ''at sharp'' ''Input Buffer is empty'')"
    by (simp add: as_Error_def)
  have "sharp_metadata_of sample_env sample_bytes = Inr sample_metadata"
    by (simp add: sample_env_fields sample_bytes_def)
  from facts [of sample_bytes, THEN conjunct2, rule_format, OF this]
  have decoded: "\<exists>r. extractMetadata sample_env sample_bytes = Inr r
      \<and> md_width r = Some 2000 \<and> md_height r = Some 1000 \<and> md_format r = Some ''jpeg''
      \<and> md_size r = Some 4 \<and> md_hasAlpha r = Some False
      \<and> md_colorSpace r = Some ''srgb'' \<and> md_density r = Some 72"
    by (simp add: sample_metadata_def sample_bytes_def eval_nat_numeral)
  from failing decoded show ?thesis by (rule conjI)
qed

text \<open>
  C9 as stated fails: for a decoder that surfaces no field at all, the result
  has width 0, height 0, format and colour space \<^verbatim>\<open>unknown\<close> and alpha \<open>False\<close>.
\<close>

theorem extractMetadata_invents_values:
  "sharp_metadata_of bare_decoder_env sample_bytes =
     Inr \<lparr> sharp_width = None, sharp_height = None, sharp_format = None,
           sharp_hasAlpha = None, sharp_space = None, sharp_density = None \<rparr>
   \<and> extractMetadata bare_decoder_env sample_bytes =
     Inr \<lparr> md_width = Some 0, md_height = Some 0, md_format = Some ''unknown'',
           md_size = Some 4, md_hasAlpha = Some False, md_colorSpace = Some ''unknown'',
           md_density = None \<rparr>"
  by (simp add: bare_decoder_env_def extractMetadata_def js_defs sample_bytes_def)

section \<open>Resizing: the geometry of the chains\<close>

lemma pipeline_dims_append:
  "pipeline_dims (xs @ ys) d =
     (case pipeline_dims xs d of None \<Rightarrow> None | Some d' \<Rightarrow> pipeline_dims ys d')"
  by (induction xs d rule: pipeline_dims.induct) (auto split: option.splits)

lemma pipeline_dims_compress: "pipeline_dims (optimize_compress cfg fmt) d = Some d"
  by (simp add: optimize_compress_def)

lemma resize_dims_fits:
  assumes "1 \<le> w" "1 \<le> h"
    and "\<forall>W. mw = Some W \<longrightarrow> w \<le> W" and "\<forall>H. mh = Some H \<longrightarrow> h \<le> H"
  shows "resize_dims \<lparr> resize_width = mw, resize_height = mh, resize_fit = FitInside,
                       resize_withoutEnlargement = True \<rparr> (w, h) = Some (w, h)"
  using assms by (auto simp: resize_dims_def split: option.splits)

lemma pipeline_dims_optimize_resize:
  assumes "1 \<le> w" "1 \<le> h"
    and "\<forall>W. maxWidth = Some W \<longrightarrow> w \<le> W" and "\<forall>H. maxHeight = Some H \<longrightarrow> h \<le> H"
  shows "pipeline_dims (optimize_resize maxWidth maxHeight) (w, h) = Some (w, h)"
  using resize_dims_fits [OF assms] by (simp add: optimize_resize_def)

lemma optimizeImage_decoded:
  "sharp_metadata_of env bytes = Inr m \<Longrightarrow>
     optimizeImage cfg env bytes maxWidth maxHeight =
       (case sharp_build env bytes (optimize_resize maxWidth maxHeight) of
          Some e \<Rightarrow> Inl (Thrown (new_ImageProcessingError (captured_stack env)
                            ''Failed to optimize image'' (as_Error e)))
        | None \<Rightarrow>
            (case sharp_toBuffer env bytes
                    (optimize_resize maxWidth maxHeight
                       @ optimize_compress cfg (sharp_format m)) of
               Inl e \<Rightarrow> Inl (Thrown (new_ImageProcessingError (captured_stack env)
                                ''Failed to optimize image'' (as_Error e)))
             | Inr out \<Rightarrow> Inr out))"
  by (simp add: optimizeImage_def optimizeImage_try_def split: option.splits)

lemma round_div_close:
  assumes "0 \<le> a" "0 < b"
  shows "\<bar>round_div a b * b - a\<bar> * 2 \<le> b"
proof -
  define q where "q = (2 * a + b) div (2 * b)"
  define r where "r = (2 * a + b) mod (2 * b)"
  define x where "x = q * b"
  have "2 * a + b = 2 * b * q + r"
    by (simp add: q_def r_def)
  then have split: "2 * a + b = 2 * x + r"
    by (simp add: x_def algebra_simps)
  have "0 \<le> r" "r < 2 * b"
    using assms by (simp_all add: r_def)
  with split have "\<bar>x - a\<bar> * 2 \<le> b"
    by presburger
  then show ?thesis by (simp add: round_div_def q_def x_def)
qed

lemma round_div_nonneg: "0 \<le> a \<Longrightarrow> 0 < b \<Longrightarrow> 0 \<le> round_div a b"
  by (simp add: round_div_def pos_imp_zdiv_nonneg_iff)

lemma scaled_side_close:
  assumes "0 \<le> other" "0 \<le> target" "0 < side"
  shows "\<bar>scaled_side other target side * side - other * target\<bar> \<le> side"
proof (cases "1 \<le> round_div (other * target) side")
  case True
  then have "scaled_side other target side = round_div (other * target) side"
    by (simp add: scaled_side_def)
  moreover have "\<bar>round_div (other * target) side * side - other * target\<bar> * 2 \<le> side"
    using assms by (intro round_div_close) simp_all
  ultimately show ?thesis using assms by simp
next
  case False
  moreover have "0 \<le> round_div (other * target) side"
    using assms by (intro round_div_nonneg) simp_all
  ultimately have zero: "round_div (other * target) side = 0" by simp
  have "\<bar>round_div (other * target) side * side - other * target\<bar> * 2 \<le> side"
    using assms by (intro round_div_close) simp_all
  with zero have "other * target * 2 \<le> side" by simp
  moreover have "0 \<le> other * target" using assms by simp
  moreover have "scaled_side other target side = 1"
    using zero by (simp add: scaled_side_def)
  ultimately show ?thesis by simp
qed

lemma int_div_le:
  fixes m n t :: int
  assumes "0 < n" "m < (t + 1) * n"
  shows "m div n \<le> t"
proof -
  have "n * (m div n) + m mod n = m" by simp
  moreover have "0 \<le> m mod n" using assms(1) by simp
  ultimately have "n * (m div n) \<le> m" by linarith
  with assms(2) have "n * (m div n) < n * (t + 1)" by (simp add: mult.commute)
  with assms(1) have "m div n < t + 1" by (simp only: mult_less_cancel_left_pos)
  then show ?thesis by simp
qed

lemma scaled_side_bounds:
  assumes "0 \<le> other" "other \<le> side" "1 \<le> target" "0 < side"
  shows "1 \<le> scaled_side other target side \<and> scaled_side other target side \<le> target"
proof -
  define y where "y = other * target"
  define z where "z = side * target"
  have "y \<le> z"
    unfolding y_def z_def using assms by (intro mult_right_mono) simp_all
  then have "2 * y + side < 2 * z + 2 * side"
    using assms by linarith
  also have "2 * z + 2 * side = (target + 1) * (2 * side)"
    by (simp add: z_def algebra_simps)
  finally have "(2 * y + side) div (2 * side) \<le> target"
    using assms by (intro int_div_le) simp_all
  then show ?thesis using assms by (simp add: scaled_side_def round_div_def y_def)
qed

section \<open>Optimizing without enlargement (claim C10)\<close>

text \<open>
  C10. For an image whose decoded width and height are at least 1 and within every
  bound that is given, the chain \<^verbatim>\<open>optimizeImage\<close> hands to the image library leaves
  the pixel size as it is (the call fails before it runs when building the chain
  throws): the resize it asks for is fit-inside without enlargement,
  and what follows is only the compression for the decoded format (progressive JPEG at
  the configured quality, PNG at compression level 9, WebP at the configured quality,
  nothing for any other format). When no bound is given the chain holds no resize at
  all.
\<close>

theorem optimizeImage_never_enlarges:
  assumes "sharp_metadata_of env bytes = Inr m"
    and "sharp_width m = Some w" and "sharp_height m = Some h"
    and "1 \<le> w" and "1 \<le> h"
    and "\<forall>W. maxWidth = Some W \<longrightarrow> w \<le> W"
    and "\<forall>H. maxHeight = Some H \<longrightarrow> h \<le> H"
  shows "optimizeImage cfg env bytes maxWidth maxHeight =
           (case sharp_build env bytes (optimize_resize maxWidth maxHeight) of
              Some e \<Rightarrow> Inl (Thrown (new_ImageProcessingError (captured_stack env)
                                ''Failed to optimize image'' (as_Error e)))
            | None \<Rightarrow>
                (case sharp_toBuffer env bytes
                        (optimize_resize maxWidth maxHeight
                           @ optimize_compress cfg (sharp_format m)) of
                   Inl e \<Rightarrow> Inl (Thrown (new_ImageProcessingError (captured_stack env)
                                    ''Failed to optimize image'' (as_Error e)))
                 | Inr out \<Rightarrow> Inr out))
         \<and> pipeline_dims
              (optimize_resize maxWidth maxHeight @ optimize_compress cfg (sharp_format m))
              (w, h) = Some (w, h)
         \<and> (maxWidth = None \<and> maxHeight = None \<longrightarrow> optimize_resize maxWidth maxHeight = [])
         \<and> (maxWidth \<noteq> None \<or> maxHeight \<noteq> None \<longrightarrow>
              optimize_resize maxWidth maxHeight =
                [Resize \<lparr> resize_width = maxWidth, resize_height = maxHeight,
                          resize_fit = FitInside, resize_withoutEnlargement = True \<rparr>])
         \<and> optimize_compress cfg (sharp_format m) =
              (if sharp_format m = Some ''jpeg'' then [Jpeg (quality (image_cfg cfg)) True]
               else if sharp_format m = Some ''png'' then [Png 9 True]
               else if sharp_format m = Some ''webp'' then [Webp (quality (image_cfg cfg))]
               else [])"
proof (intro conjI)
  show "optimizeImage cfg env bytes maxWidth maxHeight =
          (case sharp_build env bytes (optimize_resize maxWidth maxHeight) of
             Some e \<Rightarrow> Inl (Thrown (new_ImageProcessingError (captured_stack env)
                               ''Failed to optimize image'' (as_Error e)))
           | None \<Rightarrow>
               (case sharp_toBuffer env bytes
                       (optimize_resize maxWidth maxHeight
                          @ optimize_compress cfg (sharp_format m)) of
                  Inl e \<Rightarrow> Inl (Thrown (new_ImageProcessingError (captured_stack env)
                                   ''Failed to optimize image'' (as_Error e)))
                | Inr out \<Rightarrow> Inr out))"
    using assms(1) by (rule optimizeImage_decoded)
  show "pipeline_dims (optimize_resize maxWidth maxHeight @ optimize_compress cfg (sharp_format m))
          (w, h) = Some (w, h)"
    using pipeline_dims_optimize_resize [OF assms(4-7)]
    by (simp add: pipeline_dims_append pipeline_dims_compress)
  show "maxWidth = None \<and> maxHeight = None \<longrightarrow> optimize_resize maxWidth maxHeight = []"
    by (simp add: optimize_resize_def falsy_num_def)
  show "maxWidth \<noteq> None \<or> maxHeight \<noteq> None \<longrightarrow>
          optimize_resize maxWidth maxHeight =
            [Resize \<lparr> resize_width = maxWidth, resize_height = maxHeight,
                      resize_fit = FitInside, resize_withoutEnlargement = True \<rparr>]"
    using assms(4-7) by (auto simp: optimize_resize_def falsy_num_def split: option.splits)
  show "optimize_compress cfg (sharp_format m) =
          (if sharp_format m = Some ''jpeg'' then [Jpeg (quality (image_cfg cfg)) True]
           else if sharp_format m = Some ''png'' then [Png 9 True]
           else if sharp_format m = Some ''webp'' then [Webp (quality (image_cfg cfg))]
           else [])"
    by (simp add: optimize_compress_def)
qed

theorem optimizeImage_never_enlarges_witness:
  "optimizeImage (defaultConfig ''key'') sample_env sample_bytes (Some 4000) (Some 1000) =
     Inr [0xFF, 0xD8, 0xFF, 0xDB]
   \<and> pipeline_dims
        (optimize_resize (Some 4000) (Some 1000)
           @ optimize_compress (defaultConfig ''key'') (Some ''jpeg''))
        (2000, 1000) = Some (2000, 1000)
   \<and> optimize_resize (Some 4000) (Some 1000) =
        [Resize \<lparr> resize_width = Some 4000, resize_height = Some 1000,
                  resize_fit = FitInside, resize_withoutEnlargement = True \<rparr>]
   \<and> optimize_compress (defaultConfig ''key'') (Some ''jpeg'') = [Jpeg 85 True]"
proof -
  have decoded: "sharp_metadata_of sample_env sample_bytes = Inr sample_metadata"
    by (simp add: sample_env_fields sample_bytes_def)
  have dims: "sharp_width sample_metadata = Some 2000" "sharp_height sample_metadata = Some 1000"
    by (simp_all add: sample_metadata_def)
  have bounds: "\<forall>W. Some 4000 = Some W \<longrightarrow> (2000::int) \<le> W"
    "\<forall>H. Some 1000 = Some H \<longrightarrow> (1000::int) \<le> H"
    by simp_all
  note facts = optimizeImage_never_enlarges [OF decoded dims _ _ bounds, of "defaultConfig ''key''"]
  have fmt: "sharp_format sample_metadata = Some ''jpeg''"
    by (simp add: sample_metadata_def)
  have "optimizeImage (defaultConfig ''key'') sample_env sample_bytes (Some 4000) (Some 1000) =
     Inr [0xFF, 0xD8, 0xFF, 0xDB]"
    using facts [THEN conjunct1] by (simp add: sample_env_fields)
  moreover have "pipeline_dims
        (optimize_resize (Some 4000) (Some 1000)
           @ optimize_compress (defaultConfig ''key'') (Some ''jpeg''))
        (2000, 1000) = Some (2000, 1000)"
    using facts [THEN conjunct2, THEN conjunct1] by (simp add: fmt)
  moreover have "optimize_resize (Some 4000) (Some 1000) =
        [Resize \<lparr> resize_width = Some 4000, resize_height = Some 1000,
                  resize_fit = FitInside, resize_withoutEnlargement = True \<rparr>]"
    using facts [THEN conjunct2, THEN conjunct2, THEN conjunct2, THEN conjunct1] by simp
  moreover have "optimize_compress (defaultConfig ''key'') (Some ''jpeg'') = [Jpeg 85 True]"
    using facts [THEN conjunct2, THEN conjunct2, THEN conjunct2, THEN conjunct2]
    by (simp add: fmt defaultConfig_def)
  ultimately show ?thesis by simp
qed

section \<open>Preparing the image for the remote call (claim C4)\<close>

lemma startsWith_append: "startsWith (p @ s) p"
  by (induction p) simp_all

lemma prepareImageForAPI_prefix:
  "prepareImageForAPI env imageSource = Inr s \<Longrightarrow> startsWith s ''data:image/jpeg;base64,''"
  unfolding prepareImageForAPI_def
  by (auto split: option.splits sum.splits prod.splits intro: startsWith_append)

lemma prepareImageForAPI_decoded:
  assumes "src_data imageSource = Some bytes"
    and "sharp_metadata_of env bytes = Inr m"
    and "sharp_width m = Some w" and "sharp_height m = Some h"
    and "1 \<le> w" and "1 \<le> h"
  shows "prepareImageForAPI env imageSource =
           (case sharp_toBuffer env bytes (api_pipeline w h) of
              Inl e \<Rightarrow> Inl e
            | Inr out \<Rightarrow> Inr (''data:image/jpeg;base64,'' @ buffer_base64 env out))"
  using assms by (simp add: prepareImageForAPI_def truthy_dims_def)

lemma api_pipeline_last: "last (api_pipeline w h) = Jpeg 80 False"
  by (simp add: api_pipeline_def JPEG_QUALITY_def)

lemma api_pipeline_small:
  "\<not> 1024 < max w h \<Longrightarrow> pipeline_dims (api_pipeline w h) (w, h) = Some (w, h)"
  by (simp add: api_pipeline_def MAX_DIMENSION_def)

lemma api_pipeline_wide:
  assumes "1024 < max w h" and "h < w" and "1 \<le> h"
  shows "pipeline_dims (api_pipeline w h) (w, h) = Some (1024, scaled_side h 1024 w)"
  using assms by (simp add: api_pipeline_def MAX_DIMENSION_def resize_dims_def)

lemma api_pipeline_tall:
  assumes "1024 < max w h" and "\<not> h < w" and "1 \<le> w"
  shows "pipeline_dims (api_pipeline w h) (w, h) = Some (scaled_side w 1024 h, 1024)"
  using assms by (simp add: api_pipeline_def MAX_DIMENSION_def resize_dims_def)

lemma api_pipeline_dims:
  assumes "1 \<le> w" and "1 \<le> h"
  shows "\<exists>w' h'. pipeline_dims (api_pipeline w h) (w, h) = Some (w', h')
           \<and> (if 1024 < max w h
               then max w' h' = 1024 \<and> \<bar>w' * h - h' * w\<bar> \<le> max w h
               else w' = w \<and> h' = h)"
proof (cases "1024 < max w h")
  case False
  then show ?thesis by (simp add: api_pipeline_small)
next
  case big: True
  show ?thesis
  proof (cases "h < w")
    case True
    have "1 \<le> scaled_side h 1024 w \<and> scaled_side h 1024 w \<le> 1024"
      using assms True by (intro scaled_side_bounds) simp_all
    moreover have "\<bar>scaled_side h 1024 w * w - h * 1024\<bar> \<le> w"
      using assms by (intro scaled_side_close) simp_all
    then have "\<bar>1024 * h - scaled_side h 1024 w * w\<bar> \<le> w"
      by (simp add: abs_minus_commute mult.commute)
    ultimately show ?thesis
      using big True api_pipeline_wide [OF big True assms(2)] by simp
  next
    case False
    have "1 \<le> scaled_side w 1024 h \<and> scaled_side w 1024 h \<le> 1024"
      using assms False by (intro scaled_side_bounds) simp_all
    moreover have "\<bar>scaled_side w 1024 h * h - w * 1024\<bar> \<le> h"
      using assms by (intro scaled_side_close) simp_all
    then have "\<bar>scaled_side w 1024 h * h - 1024 * w\<bar> \<le> h"
      by (simp add: mult.commute)
    ultimately show ?thesis
      using big False api_pipeline_tall [OF big False assms(1)] by simp
  qed
qed

text \<open>
  C4. Whatever \<^verbatim>\<open>prepareImageForAPI\<close> returns starts with
  \<^verbatim>\<open>data:image/jpeg;base64,\<close>. For an image whose decoded width and height are at
  least 1, the payload is the base64 of what the image library makes of a chain that
  always ends in JPEG compression at quality 80, whatever the decoded format. When the
  longer side exceeds 1024 the chain first resizes, and the resulting size has its
  longer side equal to 1024 and its other side within one pixel of the proportional
  value (written without division: \<open>w' * h\<close> and \<open>h' * w\<close> differ by at most the longer
  original side); otherwise the chain holds no resize and the size is unchanged.
\<close>

theorem prepareImageForAPI_normalizes:
  "(\<forall>s. prepareImageForAPI env imageSource = Inr s \<longrightarrow>
        startsWith s ''data:image/jpeg;base64,'')
   \<and> (src_data imageSource = Some bytes \<and> sharp_metadata_of env bytes = Inr m
        \<and> sharp_width m = Some w \<and> sharp_height m = Some h \<and> 1 \<le> w \<and> 1 \<le> h \<longrightarrow>
        prepareImageForAPI env imageSource =
          (case sharp_toBuffer env bytes (api_pipeline w h) of
             Inl e \<Rightarrow> Inl e
           | Inr out \<Rightarrow> Inr (''data:image/jpeg;base64,'' @ buffer_base64 env out))
        \<and> last (api_pipeline w h) = Jpeg 80 False
        \<and> (max w h \<le> 1024 \<longrightarrow> api_pipeline w h = [Jpeg 80 False])
        \<and> (\<exists>w' h'. pipeline_dims (api_pipeline w h) (w, h) = Some (w', h')
              \<and> (if 1024 < max w h
                  then max w' h' = 1024 \<and> \<bar>w' * h - h' * w\<bar> \<le> max w h
                  else w' = w \<and> h' = h)))"
proof (intro conjI allI impI)
  fix s assume "prepareImageForAPI env imageSource = Inr s"
  then show "startsWith s ''data:image/jpeg;base64,''"
    by (rule prepareImageForAPI_prefix)
next
  assume pre: "src_data imageSource = Some bytes \<and> sharp_metadata_of env bytes = Inr m
        \<and> sharp_width m = Some w \<and> sharp_height m = Some h \<and> 1 \<le> w \<and> 1 \<le> h"
  then have a: "src_data imageSource = Some bytes" "sharp_metadata_of env bytes = Inr m"
    "sharp_width m = Some w" "sharp_height m = Some h" "1 \<le> w" "1 \<le> h"
    by simp_all
  show "prepareImageForAPI env imageSource =
          (case sharp_toBuffer env bytes (api_pipeline w h) of
             Inl e \<Rightarrow> Inl e
           | Inr out \<Rightarrow> Inr (''data:image/jpeg;base64,'' @ buffer_base64 env out))"
    using a by (rule prepareImageForAPI_decoded)
  show "last (api_pipeline w h) = Jpeg 80 False"
    by (rule api_pipeline_last)
  show "\<exists>w' h'. pipeline_dims (api_pipeline w h) (w, h) = Some (w', h')
              \<and> (if 1024 < max w h
                  then max w' h' = 1024 \<and> \<bar>w' * h - h' * w\<bar> \<le> max w h
                  else w' = w \<and> h' = h)"
    using a(5,6) by (rule api_pipeline_dims)
next
  assume "max w h \<le> 1024"
  then have "\<not> 1024 < max w h" by linarith
  then show "api_pipeline w h = [Jpeg 80 False]"
    by (simp only: api_pipeline_def MAX_DIMENSION_def JPEG_QUALITY_def if_False)
qed

theorem prepareImageForAPI_normalizes_witness:
  "prepareImageForAPI sample_env
     \<lparr> src_type = File, src_path = Some ''/srv/local.jpg'', src_data = Some sample_bytes,
       src_url = None, src_metadata = None \<rparr>
     = Inr ''data:image/jpeg;base64,/9j/2w==''
   \<and> pipeline_dims (api_pipeline 2000 1000) (2000, 1000) = Some (1024, 512)
   \<and> last (api_pipeline 2000 1000) = Jpeg 80 False"
proof -
  define src where "src =
     \<lparr> src_type = File, src_path = Some ''/srv/local.jpg'', src_data = Some sample_bytes,
       src_url = None, src_metadata = None \<rparr>"
  have pre: "src_data src = Some sample_bytes
        \<and> sharp_metadata_of sample_env sample_bytes = Inr sample_metadata
        \<and> sharp_width sample_metadata = Some 2000 \<and> sharp_height sample_metadata = Some 1000
        \<and> (1::int) \<le> 2000 \<and> (1::int) \<le> 1000"
    by (simp add: src_def sample_env_fields sample_bytes_def sample_metadata_def)
  note facts = prepareImageForAPI_normalizes
    [of sample_env src sample_bytes sample_metadata 2000 1000, THEN conjunct2, rule_format, OF pre]
  have "prepareImageForAPI sample_env src = Inr ''data:image/jpeg;base64,/9j/2w==''"
    using facts [THEN conjunct1] by (simp add: sample_env_fields)
  moreover have "last (api_pipeline 2000 1000) = Jpeg 80 False"
    using facts [THEN conjunct2, THEN conjunct1] .
  moreover have "pipeline_dims (api_pipeline 2000 1000) (2000, 1000) = Some (1024, 512)"
    by (simp add: api_pipeline_def MAX_DIMENSION_def resize_dims_def scaled_side_def round_div_def)
  ultimately show ?thesis by (simp add: src_def)
qed

section \<open>The analysis service: how a call unfolds\<close>

lemma str_includes_empty: "str_includes s []"
  by (cases s) simp_all

lemma str_includes_prefix: "str_includes (p @ s) p"
proof (cases p)
  case Nil
  then show ?thesis by (simp add: str_includes_empty)
next
  case (Cons x xs)
  have "startsWith ((x # xs) @ s) (x # xs)" by (rule startsWith_append)
  with Cons show ?thesis by simp
qed

lemma str_includes_append: "str_includes s sub \<Longrightarrow> str_includes (a @ s) sub"
  by (induction a) simp_all

lemma str_includes_middle: "str_includes (a @ b @ c) b"
  by (intro str_includes_append str_includes_prefix)

lemma truthy_value_iff:
  "truthy_value v \<longleftrightarrow> v \<noteq> JNull \<and> v \<noteq> JBool False \<and> v \<noteq> JNumber 0 \<and> v \<noteq> JString []"
  by (cases v) auto

lemma analyzeImage_catch_class: "instance_of (analyzeImage_catch env e) ImageAnalysisError"
  by (simp add: analyzeImage_catch_def instance_of_def new_ImageAnalysisError_def)

lemma analyzeImage_catch_no_content:
  "analyzeImage_catch env (no_content_error env) = no_content_error env"
  by (simp add: analyzeImage_catch_def no_content_error_def instance_of_def
      new_ImageAnalysisError_def)


lemma analyzeImage_unprepared:
  "prepareImageForAPI env imageSource = Inl e \<Longrightarrow>
     analyzeImage cfg env imageSource model prompt =
       (Settled (Inl (analyzeImage_catch env e)), [])"
  by (simp add: analyzeImage_def analyzeImage_try_def)

lemma analyzeImage_prepared:
  assumes "prepareImageForAPI env imageSource = Inr dataUrl"
  shows "analyzeImage cfg env imageSource model prompt =
     (case callOpenRouterAPI cfg env dataUrl (str_or prompt DEFAULT_PROMPT)
             (str_or model (defaultModel (openRouter cfg))) of
        (Pending, effects) \<Rightarrow> (Pending, effects)
      | (Settled (Inl e), effects) \<Rightarrow> (Settled (Inl (analyzeImage_catch env e)), effects)
      | (Settled (Inr response), effects) \<Rightarrow>
          (case first_choice_content env response of
             Inl e \<Rightarrow> (Settled (Inl (analyzeImage_catch env e)), effects)
           | Inr None \<Rightarrow> (Settled (Inl (no_content_error env)), effects)
           | Inr (Some analysis) \<Rightarrow>
               if truthy_value analysis
               then (Settled (Inr (fst (create env imageSource
                                          (str_or model (defaultModel (openRouter cfg)))
                                          analysis None (js_member response ''usage'')
                                          (js_member response ''id'')))),
                     effects @ snd (create env imageSource
                                      (str_or model (defaultModel (openRouter cfg)))
                                      analysis None (js_member response ''usage'')
                                      (js_member response ''id'')))
               else (Settled (Inl (no_content_error env)), effects)))"
  using assms
  by (simp add: analyzeImage_def analyzeImage_try_def Let_def analyzeImage_catch_no_content
      split: prod.splits sum.splits option.splits promise.splits)

lemma callOpenRouterAPI_aborted:
  assumes "fetch_post env (api_request cfg dataUrl prompt model) = NeverSettles
           \<or> (\<exists>t r. fetch_post env (api_request cfg dataUrl prompt model) = Settles t r
                 \<and> timer_delay (timeout (openRouter cfg)) < t)"
  shows "callOpenRouterAPI cfg env dataUrl prompt model =
     (Settled (Inl (Thrown (new_Error (captured_stack env)
        (''Request timeout after '' @ number_to_string (timeout (openRouter cfg)) @ ''ms'')))),
      [Sent (api_request cfg dataUrl prompt model), Aborted])"
  using assms
  by (auto simp: callOpenRouterAPI_def Let_def callOpenRouterAPI_catch_def abort_error_def)

lemma callOpenRouterAPI_in_time:
  assumes "fetch_post env (api_request cfg dataUrl prompt model) = Settles t r"
    and "t \<le> timer_delay (timeout (openRouter cfg))"
  shows "callOpenRouterAPI cfg env dataUrl prompt model =
     (case callOpenRouterAPI_settled env r of
        Pending \<Rightarrow> (Pending, [Sent (api_request cfg dataUrl prompt model)])
      | Settled (Inl e) \<Rightarrow>
          (Settled (Inl (callOpenRouterAPI_catch cfg env e)),
           [Sent (api_request cfg dataUrl prompt model)])
      | Settled (Inr data) \<Rightarrow>
          (Settled (Inr data), [Sent (api_request cfg dataUrl prompt model)]))"
  using assms by (simp add: callOpenRouterAPI_def Let_def)

lemma callOpenRouterAPI_effects:
  "snd (callOpenRouterAPI cfg env dataUrl prompt model) =
      [Sent (api_request cfg dataUrl prompt model)]
   \<or> snd (callOpenRouterAPI cfg env dataUrl prompt model) =
      [Sent (api_request cfg dataUrl prompt model), Aborted]"
  by (simp add: callOpenRouterAPI_def Let_def
      split: fetch_behaviour.splits sum.splits promise.splits)

lemma analyzeImage_call_fails:
  assumes "prepareImageForAPI env imageSource = Inr dataUrl"
    and "fst (callOpenRouterAPI cfg env dataUrl (str_or prompt DEFAULT_PROMPT)
                (str_or model (defaultModel (openRouter cfg)))) = Settled (Inl e)"
  shows "analyzeImage cfg env imageSource model prompt =
           (Settled (Inl (analyzeImage_catch env e)),
            snd (callOpenRouterAPI cfg env dataUrl (str_or prompt DEFAULT_PROMPT)
                   (str_or model (defaultModel (openRouter cfg)))))"
  using assms(2) unfolding analyzeImage_prepared [OF assms(1)]
  by (cases "callOpenRouterAPI cfg env dataUrl (str_or prompt DEFAULT_PROMPT)
                (str_or model (defaultModel (openRouter cfg)))") simp

lemma analyzeImage_call_succeeds:
  assumes "prepareImageForAPI env imageSource = Inr dataUrl"
    and "callOpenRouterAPI cfg env dataUrl (str_or prompt DEFAULT_PROMPT)
           (str_or model (defaultModel (openRouter cfg))) = (Settled (Inr response), effects)"
  shows "analyzeImage cfg env imageSource model prompt =
          (case first_choice_content env response of
             Inl e \<Rightarrow> (Settled (Inl (analyzeImage_catch env e)), effects)
           | Inr None \<Rightarrow> (Settled (Inl (no_content_error env)), effects)
           | Inr (Some analysis) \<Rightarrow>
               if truthy_value analysis
               then (Settled (Inr (fst (create env imageSource
                                          (str_or model (defaultModel (openRouter cfg)))
                                          analysis None (js_member response ''usage'')
                                          (js_member response ''id'')))),
                     effects @ snd (create env imageSource
                                      (str_or model (defaultModel (openRouter cfg)))
                                      analysis None (js_member response ''usage'')
                                      (js_member response ''id'')))
               else (Settled (Inl (no_content_error env)), effects))"
  unfolding analyzeImage_prepared [OF assms(1)] assms(2) by simp

section \<open>Failures of the analysis service (claim C3)\<close>

lemma settled_not_ok:
  "\<not> rsp_ok rsp \<Longrightarrow> rsp_text rsp = Settled x \<Longrightarrow>
     \<exists>e. callOpenRouterAPI_settled env (Inr rsp) = Settled (Inl e)"
  by (simp add: callOpenRouterAPI_settled_def split: sum.splits)

lemma settled_not_ok_text:
  "\<not> rsp_ok rsp \<Longrightarrow> rsp_text rsp = Settled (Inr errorText) \<Longrightarrow>
     callOpenRouterAPI_settled env (Inr rsp) =
       Settled (Inl (Thrown (new_Error (captured_stack env)
         (''OpenRouter API error ('' @ number_to_string (rsp_status rsp) @ ''): ''
            @ errorText))))"
  by (simp add: callOpenRouterAPI_settled_def)

lemma settled_unparsed:
  "rsp_ok rsp \<Longrightarrow> rsp_json rsp = Settled (Inl e) \<Longrightarrow>
     callOpenRouterAPI_settled env (Inr rsp) = Settled (Inl e)"
  by (simp add: callOpenRouterAPI_settled_def)

lemma settled_no_choices:
  "rsp_ok rsp \<Longrightarrow> rsp_json rsp = Settled (Inr (JObject kvs)) \<Longrightarrow>
     map_of kvs ''choices'' = None \<or> map_of kvs ''choices'' = Some JNull
       \<or> map_of kvs ''choices'' = Some (JArray []) \<Longrightarrow>
     callOpenRouterAPI_settled env (Inr rsp) =
       Settled (Inl (Thrown (new_Error (captured_stack env)
         ''No choices returned from OpenRouter API'')))"
  by (auto simp: callOpenRouterAPI_settled_def no_choices_def js_get_def)

lemma settled_with_choices:
  "rsp_ok rsp \<Longrightarrow> rsp_json rsp = Settled (Inr (JObject kvs)) \<Longrightarrow>
     map_of kvs ''choices'' = Some (JArray (c # cs)) \<Longrightarrow>
     callOpenRouterAPI_settled env (Inr rsp) = Settled (Inr (JObject kvs))"
  by (simp add: callOpenRouterAPI_settled_def no_choices_def js_get_def)

lemma analyzeImage_settled_failure:
  assumes prep: "prepareImageForAPI env imageSource = Inr dataUrl"
    and post: "fetch_post env (api_request cfg dataUrl (str_or prompt DEFAULT_PROMPT)
                 (str_or model (defaultModel (openRouter cfg)))) = Settles t r"
    and in_time: "t \<le> timer_delay (timeout (openRouter cfg))"
    and failed: "callOpenRouterAPI_settled env r = Settled (Inl e)"
  shows "fst (analyzeImage cfg env imageSource model prompt) =
           Settled (Inl (analyzeImage_catch env (callOpenRouterAPI_catch cfg env e)))"
proof -
  have "fst (callOpenRouterAPI cfg env dataUrl (str_or prompt DEFAULT_PROMPT)
               (str_or model (defaultModel (openRouter cfg)))) =
          Settled (Inl (callOpenRouterAPI_catch cfg env e))"
    by (simp add: callOpenRouterAPI_in_time [OF post in_time] failed)
  from analyzeImage_call_fails [OF prep this] show ?thesis by simp
qed

lemma rejects_with_catch:
  "rejects_with (Settled (Inl (analyzeImage_catch env e))) ImageAnalysisError"
  by (simp add: rejects_with_def fails_with_def analyzeImage_catch_class)

lemma timeout_message:
  "str_includes
     (''Vision analysis failed: OpenRouter API call failed: Request timeout after '' @ n @ ''ms'')
     ''timeout''"
  using str_includes_middle
    [of "''Vision analysis failed: OpenRouter API call failed: Request ''" "''timeout''"
        "'' after '' @ n @ ''ms''"]
  by simp

lemma first_choice_no_content:
  assumes "map_of kvs ''choices'' = Some (JArray (c # rest))"
    and "c = JNull
         \<or> (\<exists>ckvs. c = JObject ckvs
               \<and> (map_of ckvs ''message'' = None
                  \<or> map_of ckvs ''message'' = Some JNull
                  \<or> (\<exists>mkvs. map_of ckvs ''message'' = Some (JObject mkvs)
                        \<and> (map_of mkvs ''content'' = None
                           \<or> map_of mkvs ''content'' = Some JNull
                           \<or> map_of mkvs ''content'' = Some (JString [])))))"
  shows "first_choice_content env (JObject kvs) = Inr None
         \<or> first_choice_content env (JObject kvs) = Inr (Some JNull)
         \<or> first_choice_content env (JObject kvs) = Inr (Some (JString []))"
  using assms by (auto simp: first_choice_content_def js_get_def opt_chain_def)

text \<open>
  C3, as the code has it. Take a call whose image was prepared, and let \<open>request\<close> be the
  request it sends. The timer that aborts the request runs for the configured timeout
  when that lies between 1 and 2147483647 ms and for 1 ms otherwise, and it guards the
  \<^verbatim>\<open>fetch\<close> promise only. When that promise resolves within the delay, the call fails
  with an \<^verbatim>\<open>ImageAnalysisError\<close> if the response is not ok and the reading of its
  body settles (with the message "OpenRouter API error (<status>): <body>" when the body
  was read), if \<^verbatim>\<open>response.json()\<close> rejects, if the member \<^verbatim>\<open>choices\<close> of the parsed
  body is missing, \<^verbatim>\<open>null\<close> or an empty array (message "No choices returned from
  OpenRouter API"), or if the first choice is \<^verbatim>\<open>null\<close>, its message is missing or
  \<^verbatim>\<open>null\<close>, or the content of the message is missing, \<^verbatim>\<open>null\<close> or the empty string
  (message "No analysis content received from API"). When the promise has not settled
  when the timer fires, the request is aborted (the effects end with \<open>Aborted\<close>) and
  the call fails with an \<^verbatim>\<open>ImageAnalysisError\<close> whose message says "Request timeout
  after <timeout>ms". The default timeout is 30000.
\<close>

theorem analyzeImage_fails_with_AnalysisFailure:
  assumes prep: "prepareImageForAPI env imageSource = Inr dataUrl"
    and req: "request = api_request cfg dataUrl (str_or prompt DEFAULT_PROMPT)
                (str_or model (defaultModel (openRouter cfg)))"
    and res: "result = analyzeImage cfg env imageSource model prompt"
    and delay: "delay = timer_delay (timeout (openRouter cfg))"
  shows
    "(\<forall>t rsp x. fetch_post env request = Settles t (Inr rsp) \<and> t \<le> delay
         \<and> \<not> rsp_ok rsp \<and> rsp_text rsp = Settled x \<longrightarrow>
         rejects_with (fst result) ImageAnalysisError)
     \<and> (\<forall>t rsp errorText. fetch_post env request = Settles t (Inr rsp) \<and> t \<le> delay
         \<and> \<not> rsp_ok rsp \<and> rsp_text rsp = Settled (Inr errorText) \<longrightarrow>
         fst result =
           Settled (Inl (Thrown (new_ImageAnalysisError (captured_stack env)
             (''OpenRouter API call failed: OpenRouter API error (''
                @ number_to_string (rsp_status rsp) @ ''): '' @ errorText)
             (Some (new_Error (captured_stack env)
                (''OpenRouter API error ('' @ number_to_string (rsp_status rsp) @ ''): ''
                   @ errorText)))))))
     \<and> (\<forall>t rsp e. fetch_post env request = Settles t (Inr rsp) \<and> t \<le> delay
         \<and> rsp_ok rsp \<and> rsp_json rsp = Settled (Inl e) \<longrightarrow>
         rejects_with (fst result) ImageAnalysisError)
     \<and> (\<forall>t rsp kvs. fetch_post env request = Settles t (Inr rsp) \<and> t \<le> delay
         \<and> rsp_ok rsp \<and> rsp_json rsp = Settled (Inr (JObject kvs))
         \<and> (map_of kvs ''choices'' = None \<or> map_of kvs ''choices'' = Some JNull
            \<or> map_of kvs ''choices'' = Some (JArray [])) \<longrightarrow>
         fst result =
           Settled (Inl (Thrown (new_ImageAnalysisError (captured_stack env)
             ''OpenRouter API call failed: No choices returned from OpenRouter API''
             (Some (new_Error (captured_stack env)
                ''No choices returned from OpenRouter API''))))))
     \<and> (\<forall>t rsp kvs c rest. fetch_post env request = Settles t (Inr rsp) \<and> t \<le> delay
         \<and> rsp_ok rsp \<and> rsp_json rsp = Settled (Inr (JObject kvs))
         \<and> map_of kvs ''choices'' = Some (JArray (c # rest))
         \<and> (c = JNull
            \<or> (\<exists>ckvs. c = JObject ckvs
                  \<and> (map_of ckvs ''message'' = None
                     \<or> map_of ckvs ''message'' = Some JNull
                     \<or> (\<exists>mkvs. map_of ckvs ''message'' = Some (JObject mkvs)
                           \<and> (map_of mkvs ''content'' = None
                              \<or> map_of mkvs ''content'' = Some JNull
                              \<or> map_of mkvs ''content'' = Some (JString [])))))) \<longrightarrow>
         fst result =
           Settled (Inl (Thrown (new_ImageAnalysisError (captured_stack env)
             ''No analysis content received from API'' None))))
     \<and> (fetch_post env request = NeverSettles
         \<or> (\<exists>t r. fetch_post env request = Settles t r \<and> delay < t) \<longrightarrow>
         (\<exists>x. result = (Settled (Inl (Thrown x)), [Sent request, Aborted])
            \<and> err_class x = ImageAnalysisError
            \<and> err_message x =
                ''Vision analysis failed: OpenRouter API call failed: Request timeout after ''
                  @ number_to_string (timeout (openRouter cfg)) @ ''ms''
            \<and> str_includes (err_message x) ''timeout''))
     \<and> delay =
         (if 1 \<le> timeout (openRouter cfg) \<and> timeout (openRouter cfg) \<le> 2147483647
          then timeout (openRouter cfg) else 1)
     \<and> timeout (openRouter (defaultConfig key)) = 30000"
proof (intro conjI allI impI)
  fix t rsp x
  assume a: "fetch_post env request = Settles t (Inr rsp) \<and> t \<le> delay
         \<and> \<not> rsp_ok rsp \<and> rsp_text rsp = Settled x"
  then obtain e where "callOpenRouterAPI_settled env (Inr rsp) = Settled (Inl e)"
    using settled_not_ok by blast
  with a show "rejects_with (fst result) ImageAnalysisError"
    unfolding res delay
    using analyzeImage_settled_failure [OF prep, of cfg prompt model t "Inr rsp"]
    by (simp add: req rejects_with_catch)
next
  fix t rsp errorText
  assume a: "fetch_post env request = Settles t (Inr rsp) \<and> t \<le> delay
         \<and> \<not> rsp_ok rsp \<and> rsp_text rsp = Settled (Inr errorText)"
  then have "callOpenRouterAPI_settled env (Inr rsp) =
       Settled (Inl (Thrown (new_Error (captured_stack env)
         (''OpenRouter API error ('' @ number_to_string (rsp_status rsp) @ ''): ''
            @ errorText))))"
    by (simp add: settled_not_ok_text)
  with a show "fst result =
           Settled (Inl (Thrown (new_ImageAnalysisError (captured_stack env)
             (''OpenRouter API call failed: OpenRouter API error (''
                @ number_to_string (rsp_status rsp) @ ''): '' @ errorText)
             (Some (new_Error (captured_stack env)
                (''OpenRouter API error ('' @ number_to_string (rsp_status rsp) @ ''): ''
                   @ errorText))))))"
    unfolding res delay
    using analyzeImage_settled_failure [OF prep, of cfg prompt model t "Inr rsp"]
    by (simp add: req analyzeImage_catch_def callOpenRouterAPI_catch_def error_defs)
next
  fix t rsp e
  assume a: "fetch_post env request = Settles t (Inr rsp) \<and> t \<le> delay
         \<and> rsp_ok rsp \<and> rsp_json rsp = Settled (Inl e)"
  then have "callOpenRouterAPI_settled env (Inr rsp) = Settled (Inl e)"
    by (simp add: settled_unparsed)
  with a show "rejects_with (fst result) ImageAnalysisError"
    unfolding res delay
    using analyzeImage_settled_failure [OF prep, of cfg prompt model t "Inr rsp"]
    by (simp add: req rejects_with_catch)
next
  fix t rsp kvs
  assume a: "fetch_post env request = Settles t (Inr rsp) \<and> t \<le> delay
         \<and> rsp_ok rsp \<and> rsp_json rsp = Settled (Inr (JObject kvs))
         \<and> (map_of kvs ''choices'' = None \<or> map_of kvs ''choices'' = Some JNull
            \<or> map_of kvs ''choices'' = Some (JArray []))"
  then have "rsp_ok rsp" "rsp_json rsp = Settled (Inr (JObject kvs))"
    "map_of kvs ''choices'' = None \<or> map_of kvs ''choices'' = Some JNull
       \<or> map_of kvs ''choices'' = Some (JArray [])"
    by blast+
  then have "callOpenRouterAPI_settled env (Inr rsp) =
       Settled (Inl (Thrown (new_Error (captured_stack env)
         ''No choices returned from OpenRouter API'')))"
    by (rule settled_no_choices)
  with a show "fst result =
           Settled (Inl (Thrown (new_ImageAnalysisError (captured_stack env)
             ''OpenRouter API call failed: No choices returned from OpenRouter API''
             (Some (new_Error (captured_stack env)
                ''No choices returned from OpenRouter API'')))))"
    unfolding res delay
    using analyzeImage_settled_failure [OF prep, of cfg prompt model t "Inr rsp"]
    by (simp add: req analyzeImage_catch_def callOpenRouterAPI_catch_def error_defs)
next
  fix t rsp kvs c rest
  assume a: "fetch_post env request = Settles t (Inr rsp) \<and> t \<le> delay
         \<and> rsp_ok rsp \<and> rsp_json rsp = Settled (Inr (JObject kvs))
         \<and> map_of kvs ''choices'' = Some (JArray (c # rest))
         \<and> (c = JNull
            \<or> (\<exists>ckvs. c = JObject ckvs
                  \<and> (map_of ckvs ''message'' = None
                     \<or> map_of ckvs ''message'' = Some JNull
                     \<or> (\<exists>mkvs. map_of ckvs ''message'' = Some (JObject mkvs)
                           \<and> (map_of mkvs ''content'' = None
                              \<or> map_of mkvs ''content'' = Some JNull
                              \<or> map_of mkvs ''content'' = Some (JString []))))))"
  then have ok: "rsp_ok rsp" and parsed: "rsp_json rsp = Settled (Inr (JObject kvs))"
    and choices: "map_of kvs ''choices'' = Some (JArray (c # rest))"
    and content: "c = JNull
         \<or> (\<exists>ckvs. c = JObject ckvs
               \<and> (map_of ckvs ''message'' = None
                  \<or> map_of ckvs ''message'' = Some JNull
                  \<or> (\<exists>mkvs. map_of ckvs ''message'' = Some (JObject mkvs)
                        \<and> (map_of mkvs ''content'' = None
                           \<or> map_of mkvs ''content'' = Some JNull
                           \<or> map_of mkvs ''content'' = Some (JString [])))))"
    and post: "fetch_post env request = Settles t (Inr rsp)"
    and in_time: "t \<le> timer_delay (timeout (openRouter cfg))"
    unfolding delay by blast+
  have settled: "callOpenRouterAPI_settled env (Inr rsp) = Settled (Inr (JObject kvs))"
    using ok parsed choices by (rule settled_with_choices)
  have call: "callOpenRouterAPI cfg env dataUrl (str_or prompt DEFAULT_PROMPT)
           (str_or model (defaultModel (openRouter cfg))) =
         (Settled (Inr (JObject kvs)), [Sent request])"
    using callOpenRouterAPI_in_time [OF post [unfolded req] in_time]
    by (simp add: settled req)
  have "fst (analyzeImage cfg env imageSource model prompt) =
          Settled (Inl (no_content_error env))"
    using first_choice_no_content [OF choices content, of env]
    unfolding analyzeImage_call_succeeds [OF prep call]
    by auto
  then show "fst result =
           Settled (Inl (Thrown (new_ImageAnalysisError (captured_stack env)
             ''No analysis content received from API'' None)))"
    by (simp add: res no_content_error_def)
next
  assume a: "fetch_post env request = NeverSettles
         \<or> (\<exists>t r. fetch_post env request = Settles t r \<and> delay < t)"
  have call: "callOpenRouterAPI cfg env dataUrl (str_or prompt DEFAULT_PROMPT)
                (str_or model (defaultModel (openRouter cfg))) =
     (Settled (Inl (Thrown (new_Error (captured_stack env)
        (''Request timeout after '' @ number_to_string (timeout (openRouter cfg)) @ ''ms'')))),
      [Sent request, Aborted])"
    using a unfolding req delay by (rule callOpenRouterAPI_aborted)
  have "result =
     (Settled (Inl (Thrown (new_ImageAnalysisError (captured_stack env)
        (''OpenRouter API call failed: Request timeout after ''
           @ number_to_string (timeout (openRouter cfg)) @ ''ms'')
        (Some (new_Error (captured_stack env)
           (''Request timeout after '' @ number_to_string (timeout (openRouter cfg))
              @ ''ms'')))))),
      [Sent request, Aborted])"
    unfolding res analyzeImage_prepared [OF prep] call
    by (simp add: analyzeImage_catch_def error_defs)
  then show "\<exists>x. result = (Settled (Inl (Thrown x)), [Sent request, Aborted])
            \<and> err_class x = ImageAnalysisError
            \<and> err_message x =
                ''Vision analysis failed: OpenRouter API call failed: Request timeout after ''
                  @ number_to_string (timeout (openRouter cfg)) @ ''ms''
            \<and> str_includes (err_message x) ''timeout''"
    using timeout_message [of "number_to_string (timeout (openRouter cfg))"]
    by (simp add: new_ImageAnalysisError_def)
next
  show "delay =
         (if 1 \<le> timeout (openRouter cfg) \<and> timeout (openRouter cfg) \<le> 2147483647
          then timeout (openRouter cfg) else 1)"
    by (auto simp: delay timer_delay_def TIMEOUT_MAX_def)
next
  show "timeout (openRouter (defaultConfig key)) = 30000"
    by (simp add: defaultConfig_def)
qed

section \<open>Sample runs of the analysis service\<close>

lemma prepared_like_sample:
  assumes "sharp_metadata_of env = sharp_metadata_of sample_env"
    and "sharp_toBuffer env = sharp_toBuffer sample_env"
    and "buffer_base64 env = buffer_base64 sample_env"
    and "src_data imageSource = Some sample_bytes"
  shows "prepareImageForAPI env imageSource = Inr ''data:image/jpeg;base64,/9j/2w==''"
  by (simp add: prepareImageForAPI_def sample_bytes_def assms
      sample_env_fields sample_metadata_def truthy_dims_def)

lemma sample_prepared:
  "prepareImageForAPI sample_env sample_source = Inr ''data:image/jpeg;base64,/9j/2w==''"
  by (rule prepared_like_sample) (simp_all add: sample_source_def)

lemma hanging_prepared:
  "prepareImageForAPI hanging_env sample_source = Inr ''data:image/jpeg;base64,/9j/2w==''"
  by (rule prepared_like_sample) (simp_all add: hanging_env_def sample_source_def)

lemma no_choices_prepared:
  "prepareImageForAPI no_choices_env sample_source = Inr ''data:image/jpeg;base64,/9j/2w==''"
  by (rule prepared_like_sample) (simp_all add: no_choices_env_def sample_source_def)

lemma stalled_body_prepared:
  "prepareImageForAPI stalled_body_env sample_source = Inr ''data:image/jpeg;base64,/9j/2w==''"
  by (rule prepared_like_sample) (simp_all add: stalled_body_env_def sample_source_def)

lemma numeric_content_prepared:
  "prepareImageForAPI numeric_content_env sample_source =
     Inr ''data:image/jpeg;base64,/9j/2w==''"
  by (rule prepared_like_sample) (simp_all add: numeric_content_env_def sample_source_def)

lemma sample_request:
  "api_request (defaultConfig ''key'') dataUrl (str_or None DEFAULT_PROMPT)
     (str_or None (defaultModel (openRouter (defaultConfig ''key'')))) =
   api_request (defaultConfig ''key'') dataUrl DEFAULT_PROMPT ''anthropic/claude-3.5-sonnet''"
  by (simp add: str_or_def defaultConfig_def)

lemma sample_delay: "timer_delay (timeout (openRouter (defaultConfig ''key''))) = 30000"
  by (simp add: timer_delay_def TIMEOUT_MAX_def defaultConfig_def)

theorem analyzeImage_fails_with_AnalysisFailure_witness:
  "(\<exists>x. analyzeImage (defaultConfig ''key'') hanging_env sample_source None None =
          (Settled (Inl (Thrown x)),
           [Sent (api_request (defaultConfig ''key'') ''data:image/jpeg;base64,/9j/2w==''
                    DEFAULT_PROMPT ''anthropic/claude-3.5-sonnet''), Aborted])
       \<and> err_class x = ImageAnalysisError
       \<and> err_message x =
           ''Vision analysis failed: OpenRouter API call failed: Request timeout after 30000ms'')
   \<and> fst (analyzeImage (defaultConfig ''key'') no_choices_env sample_source None None) =
       Settled (Inl (Thrown (new_ImageAnalysisError ''at <anonymous>''
         ''OpenRouter API call failed: No choices returned from OpenRouter API''
         (Some (new_Error ''at <anonymous>'' ''No choices returned from OpenRouter API'')))))"
proof -
  define request where "request =
    api_request (defaultConfig ''key'') ''data:image/jpeg;base64,/9j/2w=='' DEFAULT_PROMPT
      ''anthropic/claude-3.5-sonnet''"
  have req: "request =
    api_request (defaultConfig ''key'') ''data:image/jpeg;base64,/9j/2w==''
      (str_or None DEFAULT_PROMPT)
      (str_or None (defaultModel (openRouter (defaultConfig ''key''))))"
    by (simp add: request_def sample_request)
  have delay: "(30000::nat) = timer_delay (timeout (openRouter (defaultConfig ''key'')))"
    by (simp add: sample_delay)
  have hangs: "fetch_post hanging_env request = NeverSettles
      \<or> (\<exists>t r. fetch_post hanging_env request = Settles t r \<and> 30000 < t)"
    by (simp add: hanging_env_def)
  have digits: "number_to_string (timeout (openRouter (defaultConfig ''key''))) = ''30000''"
    by (simp add: defaultConfig_def number_to_string.simps digit_char_def)
  note facts = analyzeImage_fails_with_AnalysisFailure [OF _ req refl delay, of _ _ "''key''"]
  from facts [OF hanging_prepared]
  have "\<exists>x. analyzeImage (defaultConfig ''key'') hanging_env sample_source None None =
            (Settled (Inl (Thrown x)), [Sent request, Aborted])
          \<and> err_class x = ImageAnalysisError
          \<and> err_message x =
              ''Vision analysis failed: OpenRouter API call failed: Request timeout after ''
                @ number_to_string (timeout (openRouter (defaultConfig ''key''))) @ ''ms''
          \<and> str_includes (err_message x) ''timeout''"
    using hangs by blast
  then have timed_out:
    "\<exists>x. analyzeImage (defaultConfig ''key'') hanging_env sample_source None None =
            (Settled (Inl (Thrown x)), [Sent request, Aborted])
          \<and> err_class x = ImageAnalysisError
          \<and> err_message x =
              ''Vision analysis failed: OpenRouter API call failed: Request timeout after 30000ms''"
    unfolding digits by auto
  have answered: "fetch_post no_choices_env request =
      Settles 800 (Inr (response_with (Settled (Inr no_choices_body))))
    \<and> 800 \<le> (30000::nat)
    \<and> rsp_ok (response_with (Settled (Inr no_choices_body)))
    \<and> rsp_json (response_with (Settled (Inr no_choices_body))) =
        Settled (Inr (JObject [(''id'', JString ''gen-2''), (''choices'', JArray [])]))
    \<and> (map_of [(''id'', JString ''gen-2''), (''choices'', JArray [])] ''choices'' = None
       \<or> map_of [(''id'', JString ''gen-2''), (''choices'', JArray [])] ''choices'' =
            Some JNull
       \<or> map_of [(''id'', JString ''gen-2''), (''choices'', JArray [])] ''choices'' =
            Some (JArray []))"
    by (simp add: no_choices_env_def response_with_def no_choices_body_def)
  from facts [OF no_choices_prepared, THEN conjunct2, THEN conjunct2, THEN conjunct2,
      THEN conjunct1, rule_format, OF answered]
  have empty: "fst (analyzeImage (defaultConfig ''key'') no_choices_env sample_source None None) =
       Settled (Inl (Thrown (new_ImageAnalysisError ''at <anonymous>''
         ''OpenRouter API call failed: No choices returned from OpenRouter API''
         (Some (new_Error ''at <anonymous>'' ''No choices returned from OpenRouter API'')))))"
    by (simp add: no_choices_env_def sample_env_fields)
  from timed_out empty show ?thesis unfolding request_def by (rule conjI)
qed

text \<open>
  C3 as stated fails twice. An endpoint that sends its headers in time and then no body:
  the timer was cleared when the headers came, so the call never returns, well past
  the timeout, and nothing aborts the request. And an endpoint whose body is valid JSON
  but not of the expected shape, the content of the first choice being the number 42:
  the call succeeds, with that number as the analysis.
\<close>

theorem analyzeImage_unbounded_read_unchecked_shape:
  "analyzeImage (defaultConfig ''key'') stalled_body_env sample_source None None =
     (Pending,
      [Sent (api_request (defaultConfig ''key'') ''data:image/jpeg;base64,/9j/2w==''
               DEFAULT_PROMPT ''anthropic/claude-3.5-sonnet'')])
   \<and> analyzeImage (defaultConfig ''key'') numeric_content_env sample_source None None =
     (Settled (Inr \<lparr> ia_id = JString ''gen-1'',
                      ia_imageSource = sample_source,
                      ia_model = ''anthropic/claude-3.5-sonnet'',
                      ia_analysis = JNumber 42,
                      ia_timestamp = 1700000000,
                      ia_metadata = None,
                      ia_usage = Some sample_usage \<rparr>),
      [Sent (api_request (defaultConfig ''key'') ''data:image/jpeg;base64,/9j/2w==''
               DEFAULT_PROMPT ''anthropic/claude-3.5-sonnet'')])"
proof (rule conjI)
  show "analyzeImage (defaultConfig ''key'') stalled_body_env sample_source None None =
     (Pending,
      [Sent (api_request (defaultConfig ''key'') ''data:image/jpeg;base64,/9j/2w==''
               DEFAULT_PROMPT ''anthropic/claude-3.5-sonnet'')])"
    by (subst analyzeImage_prepared [OF stalled_body_prepared])
      (simp add: sample_request
        callOpenRouterAPI_def Let_def stalled_body_env_def sample_delay
        callOpenRouterAPI_settled_def response_with_def)
  show "analyzeImage (defaultConfig ''key'') numeric_content_env sample_source None None =
     (Settled (Inr \<lparr> ia_id = JString ''gen-1'',
                      ia_imageSource = sample_source,
                      ia_model = ''anthropic/claude-3.5-sonnet'',
                      ia_analysis = JNumber 42,
                      ia_timestamp = 1700000000,
                      ia_metadata = None,
                      ia_usage = Some sample_usage \<rparr>),
      [Sent (api_request (defaultConfig ''key'') ''data:image/jpeg;base64,/9j/2w==''
               DEFAULT_PROMPT ''anthropic/claude-3.5-sonnet'')])"
    by (subst analyzeImage_prepared [OF numeric_content_prepared])
      (simp add: sample_request
        callOpenRouterAPI_def Let_def numeric_content_env_def sample_delay sample_env_fields
        callOpenRouterAPI_settled_def response_with_def body_with_content_def
        js_get_def no_choices_def first_choice_content_def opt_chain_def
        create_def value_or_def truthy_def str_or_def defaultConfig_def
        timer_delay_def TIMEOUT_MAX_def)
qed

section \<open>The request (claim C6)\<close>

lemma requests_sent_append: "requests_sent (a @ b) = requests_sent a @ requests_sent b"
  by (induction a rule: requests_sent.induct) simp_all

lemma requests_sent_create:
  "requests_sent (snd (create env imageSource model analysis metadata usage ident)) = []"
  by (simp add: create_def)

lemma requests_sent_call:
  "requests_sent (snd (callOpenRouterAPI cfg env dataUrl prompt model)) =
     [api_request cfg dataUrl prompt model]"
  using callOpenRouterAPI_effects [of cfg env dataUrl prompt model] by auto

lemma analyzeImage_effects:
  assumes "prepareImageForAPI env imageSource = Inr dataUrl"
  shows "requests_sent (snd (analyzeImage cfg env imageSource model prompt)) =
           requests_sent (snd (callOpenRouterAPI cfg env dataUrl (str_or prompt DEFAULT_PROMPT)
                                 (str_or model (defaultModel (openRouter cfg)))))"
  unfolding analyzeImage_prepared [OF assms]
  by (simp add: requests_sent_append requests_sent_create
      split: prod.splits sum.splits option.splits promise.splits)

text \<open>
  C6, as the code has it. When the image was prepared, \<^verbatim>\<open>analyzeImage\<close> sends exactly one
  request: a POST to the base URL followed by \<^verbatim>\<open>/chat/completions\<close>, with the bearer
  credential, the JSON content type, the referer and the client title as headers, and
  with the body \<^verbatim>\<open>{model, messages: [{role: "user", content: [{type: "text", text},
  {type: "image_url", image_url: {url}}]}], max_tokens: 1000}\<close>, where the model is the
  argument when it is given and non-empty and the configured default otherwise, the text
  is the prompt when it is given and non-empty and the default prompt otherwise, and the
  URL is the prepared data URL. When preparing the image fails, no request is sent.
\<close>

theorem analyzeImage_sends_one_request:
  "(\<forall>dataUrl. prepareImageForAPI env imageSource = Inr dataUrl \<longrightarrow>
       requests_sent (snd (analyzeImage cfg env imageSource model prompt)) =
         [\<lparr> req_url = baseUrl (openRouter cfg) @ ''/chat/completions'',
            req_method = ''POST'',
            req_headers =
              [(''Authorization'', ''Bearer '' @ apiKey (openRouter cfg)),
               (''Content-Type'', ''application/json''),
               (''HTTP-Referer'', httpReferer (openRouter cfg)),
               (''X-Title'', ''Vision MCP Server'')],
            req_body =
              JObject
                [(''model'',
                    JString (case model of
                               None \<Rightarrow> defaultModel (openRouter cfg)
                             | Some m \<Rightarrow> if m = [] then defaultModel (openRouter cfg) else m)),
                 (''messages'',
                    JArray
                      [JObject
                         [(''role'', JString ''user''),
                          (''content'',
                             JArray
                               [JObject
                                  [(''type'', JString ''text''),
                                   (''text'',
                                      JString (case prompt of
                                                 None \<Rightarrow>
                                                   ''Analyze this image and describe what you see in detail.''
                                               | Some p \<Rightarrow>
                                                   if p = []
                                                   then ''Analyze this image and describe what you see in detail.''
                                                   else p))],
                                JObject
                                  [(''type'', JString ''image_url''),
                                   (''image_url'', JObject [(''url'', JString dataUrl)])]])]]),
                 (''max_tokens'', JNumber 1000)] \<rparr>])
   \<and> (\<forall>e. prepareImageForAPI env imageSource = Inl e \<longrightarrow>
         snd (analyzeImage cfg env imageSource model prompt) = [])"
proof (intro conjI allI impI)
  fix dataUrl assume "prepareImageForAPI env imageSource = Inr dataUrl"
  then have "requests_sent (snd (analyzeImage cfg env imageSource model prompt)) =
     [api_request cfg dataUrl (str_or prompt DEFAULT_PROMPT)
        (str_or model (defaultModel (openRouter cfg)))]"
    by (simp add: analyzeImage_effects requests_sent_call)
  then show "requests_sent (snd (analyzeImage cfg env imageSource model prompt)) =
         [\<lparr> req_url = baseUrl (openRouter cfg) @ ''/chat/completions'',
            req_method = ''POST'',
            req_headers =
              [(''Authorization'', ''Bearer '' @ apiKey (openRouter cfg)),
               (''Content-Type'', ''application/json''),
               (''HTTP-Referer'', httpReferer (openRouter cfg)),
               (''X-Title'', ''Vision MCP Server'')],
            req_body =
              JObject
                [(''model'',
                    JString (case model of
                               None \<Rightarrow> defaultModel (openRouter cfg)
                             | Some m \<Rightarrow> if m = [] then defaultModel (openRouter cfg) else m)),
                 (''messages'',
                    JArray
                      [JObject
                         [(''role'', JString ''user''),
                          (''content'',
                             JArray
                               [JObject
                                  [(''type'', JString ''text''),
                                   (''text'',
                                      JString (case prompt of
                                                 None \<Rightarrow>
                                                   ''Analyze this image and describe what you see in detail.''
                                               | Some p \<Rightarrow>
                                                   if p = []
                                                   then ''Analyze this image and describe what you see in detail.''
                                                   else p))],
                                JObject
                                  [(''type'', JString ''image_url''),
                                   (''image_url'', JObject [(''url'', JString dataUrl)])]])]]),
                 (''max_tokens'', JNumber 1000)] \<rparr>]"
    by (simp add: api_request_def requestBody_def str_or_def DEFAULT_PROMPT_def)
next
  fix e assume "prepareImageForAPI env imageSource = Inl e"
  then show "snd (analyzeImage cfg env imageSource model prompt) = []"
    by (simp add: analyzeImage_unprepared)
qed

theorem analyzeImage_sends_one_request_witness:
  "requests_sent (snd (analyzeImage (defaultConfig ''key'') sample_env sample_source
                         (Some ''openai/gpt-4o'') None)) =
     [\<lparr> req_url = ''https://openrouter.ai/api/v1/chat/completions'',
        req_method = ''POST'',
        req_headers =
          [(''Authorization'', ''Bearer key''),
           (''Content-Type'', ''application/json''),
           (''HTTP-Referer'', ''https://github.com/TheNomadInOrbit/vision-mcp-server''),
           (''X-Title'', ''Vision MCP Server'')],
        req_body =
          JObject
            [(''model'', JString ''openai/gpt-4o''),
             (''messages'',
                JArray
                  [JObject
                     [(''role'', JString ''user''),
                      (''content'',
                         JArray
                           [JObject
                              [(''type'', JString ''text''),
                               (''text'',
                                  JString ''Analyze this image and describe what you see in detail.'')],
                            JObject
                              [(''type'', JString ''image_url''),
                               (''image_url'',
                                  JObject [(''url'', JString ''data:image/jpeg;base64,/9j/2w=='')])]])]]),
             (''max_tokens'', JNumber 1000)] \<rparr>]
   \<and> snd (analyzeImage (defaultConfig ''key'') failing_encoder_env sample_source None None) = []"
proof -
  note sent = analyzeImage_sends_one_request
    [of sample_env sample_source "defaultConfig ''key''" "Some ''openai/gpt-4o''" None,
     THEN conjunct1, rule_format, OF sample_prepared]
  have unprepared: "prepareImageForAPI failing_encoder_env sample_source =
      Inl (Thrown (new_Error ''at sharp'' ''VipsJpeg: Premature end of input file''))"
    by (simp add: prepareImageForAPI_def sample_source_def sample_bytes_def sample_env_fields
        failing_encoder_env_def sample_metadata_def truthy_dims_def)
  note unsent = analyzeImage_sends_one_request
    [of failing_encoder_env sample_source "defaultConfig ''key''" None None,
     THEN conjunct2, rule_format, OF unprepared]
  from sent unsent show ?thesis by (simp add: defaultConfig_def)
qed

text \<open>
  C6 as stated fails: a call whose image cannot be encoded sends no request.
\<close>

theorem analyzeImage_without_request:
  "requests_sent
     (snd (analyzeImage (defaultConfig ''key'') failing_encoder_env sample_source None None)) = []
   \<and> rejects_with
       (fst (analyzeImage (defaultConfig ''key'') failing_encoder_env sample_source None None))
       ImageAnalysisError"
  by (simp add: analyzeImage_def analyzeImage_try_def Let_def
      prepareImageForAPI_def sample_source_def sample_bytes_def sample_env_fields
      failing_encoder_env_def sample_metadata_def truthy_dims_def fails_with_def
      rejects_with_def analyzeImage_catch_class)

section \<open>The result of a successful analysis (claim C7)\<close>

lemma callOpenRouterAPI_success:
  assumes "callOpenRouterAPI cfg env dataUrl prompt model = (Settled (Inr body), effects)"
  shows "\<exists>t rsp.
           fetch_post env (api_request cfg dataUrl prompt model) = Settles t (Inr rsp)
           \<and> t \<le> timer_delay (timeout (openRouter cfg)) \<and> rsp_ok rsp
           \<and> rsp_json rsp = Settled (Inr body)
           \<and> effects = [Sent (api_request cfg dataUrl prompt model)]"
proof (cases "fetch_post env (api_request cfg dataUrl prompt model)")
  case NeverSettles
  with assms show ?thesis by (simp add: callOpenRouterAPI_def Let_def)
next
  case (Settles t r)
  with assms have in_time: "t \<le> timer_delay (timeout (openRouter cfg))"
    by (auto simp: callOpenRouterAPI_def Let_def split: if_splits)
  with assms Settles have settled: "callOpenRouterAPI_settled env r = Settled (Inr body)"
    and effects: "effects = [Sent (api_request cfg dataUrl prompt model)]"
    by (auto simp: callOpenRouterAPI_def Let_def split: sum.splits promise.splits)
  then obtain rsp where r: "r = Inr rsp"
    by (cases r) (simp_all add: callOpenRouterAPI_settled_def)
  from settled r have "rsp_ok rsp \<and> rsp_json rsp = Settled (Inr body)"
    by (auto simp: callOpenRouterAPI_settled_def split: if_splits sum.splits promise.splits)
  with Settles r in_time effects show ?thesis by blast
qed

lemma first_choice_content_shape:
  assumes "first_choice_content env body = Inr (Some a)"
  shows "\<exists>kvs choices ckvs mkvs.
           body = JObject kvs
           \<and> map_of kvs ''choices'' = Some choices
           \<and> ((\<exists>rest. choices = JArray (JObject ckvs # rest))
              \<or> (\<exists>members. choices = JObject members
                    \<and> map_of members ''0'' = Some (JObject ckvs)))
           \<and> map_of ckvs ''message'' = Some (JObject mkvs)
           \<and> map_of mkvs ''content'' = Some a"
proof -
  obtain kvs where body: "body = JObject kvs"
    using assms by (cases body) (simp_all add: first_choice_content_def js_get_def)
  obtain choices where choices: "map_of kvs ''choices'' = Some choices"
    and chain: "opt_chain (opt_chain (js_first choices) ''message'') ''content'' = Some a"
    using assms unfolding body
    by (auto simp: first_choice_content_def js_get_def split: option.splits json.splits)
  obtain m where m: "opt_chain (js_first choices) ''message'' = Some m"
    using chain by (cases "opt_chain (js_first choices) ''message''") (simp_all add: opt_chain_def)
  obtain mkvs where mkvs: "m = JObject mkvs" and content: "map_of mkvs ''content'' = Some a"
    using chain unfolding m by (cases m) (simp_all add: opt_chain_def)
  obtain c where c: "js_first choices = Some c"
    using m by (cases "js_first choices") (simp_all add: opt_chain_def)
  obtain ckvs where ckvs: "c = JObject ckvs" and message: "map_of ckvs ''message'' = Some m"
    using m unfolding c by (cases c) (simp_all add: opt_chain_def)
  have "(\<exists>rest. choices = JArray (JObject ckvs # rest))
        \<or> (\<exists>members. choices = JObject members \<and> map_of members ''0'' = Some (JObject ckvs))"
    using c unfolding ckvs by (cases choices) (auto split: list.splits)
  with body choices message content mkvs show ?thesis by blast
qed

lemma analyzeImage_success:
  assumes "analyzeImage cfg env imageSource model prompt = (Settled (Inr r), effects)"
  shows "\<exists>dataUrl t rsp body a.
           prepareImageForAPI env imageSource = Inr dataUrl
           \<and> fetch_post env
                (api_request cfg dataUrl (str_or prompt DEFAULT_PROMPT)
                   (str_or model (defaultModel (openRouter cfg)))) = Settles t (Inr rsp)
           \<and> rsp_json rsp = Settled (Inr body)
           \<and> first_choice_content env body = Inr (Some a)
           \<and> truthy_value a
           \<and> r = fst (create env imageSource (str_or model (defaultModel (openRouter cfg)))
                        a None (js_member body ''usage'') (js_member body ''id''))
           \<and> effects =
                Sent (api_request cfg dataUrl (str_or prompt DEFAULT_PROMPT)
                        (str_or model (defaultModel (openRouter cfg))))
                # snd (create env imageSource (str_or model (defaultModel (openRouter cfg)))
                         a None (js_member body ''usage'') (js_member body ''id''))"
proof -
  obtain dataUrl where prep: "prepareImageForAPI env imageSource = Inr dataUrl"
    using assms by (cases "prepareImageForAPI env imageSource")
      (simp_all add: analyzeImage_unprepared)
  define call where "call = callOpenRouterAPI cfg env dataUrl (str_or prompt DEFAULT_PROMPT)
             (str_or model (defaultModel (openRouter cfg)))"
  obtain body sent where call: "call = (Settled (Inr body), sent)"
    using assms unfolding analyzeImage_prepared [OF prep] call_def [symmetric]
    by (cases call) (auto split: promise.splits sum.splits)
  from callOpenRouterAPI_success [OF call [unfolded call_def]]
  obtain t rsp where
    answered: "fetch_post env
                (api_request cfg dataUrl (str_or prompt DEFAULT_PROMPT)
                   (str_or model (defaultModel (openRouter cfg)))) = Settles t (Inr rsp)"
    and parsed: "rsp_json rsp = Settled (Inr body)"
    and sent: "sent = [Sent (api_request cfg dataUrl (str_or prompt DEFAULT_PROMPT)
                               (str_or model (defaultModel (openRouter cfg))))]"
    by blast
  obtain a where "first_choice_content env body = Inr (Some a)" "truthy_value a"
    "r = fst (create env imageSource (str_or model (defaultModel (openRouter cfg)))
                a None (js_member body ''usage'') (js_member body ''id''))"
    "effects = sent @ snd (create env imageSource (str_or model (defaultModel (openRouter cfg)))
                             a None (js_member body ''usage'') (js_member body ''id''))"
    using assms unfolding analyzeImage_call_succeeds [OF prep call [unfolded call_def]]
    by (auto split: sum.splits option.splits if_splits)
  with prep answered parsed sent show ?thesis by simp
qed

lemma analyzeImage_generated_id:
  assumes "analyzeImage cfg env imageSource model prompt = (Settled (Inr r), effects)"
    and "DrewUUID \<in> set effects"
  shows "ia_id r = JString (crypto_randomUUID env (uuids_drawn env))"
proof -
  from analyzeImage_success [OF assms(1)] obtain request a usage ident where
    "r = fst (create env imageSource (str_or model (defaultModel (openRouter cfg)))
                a None usage ident)"
    "effects = Sent request
                # snd (create env imageSource (str_or model (defaultModel (openRouter cfg)))
                         a None usage ident)"
    by blast
  with assms(2) show ?thesis
    by (auto simp: create_def value_or_def truthy_def split: if_splits option.splits)
qed

lemma create_fields:
  "ia_analysis (fst (create env imageSource model analysis metadata usage ident)) = analysis"
  "ia_usage (fst (create env imageSource model analysis metadata usage ident)) = usage"
  "ia_model (fst (create env imageSource model analysis metadata usage ident)) = model"
  "ia_imageSource (fst (create env imageSource model analysis metadata usage ident)) =
     imageSource"
  by (simp_all add: create_def)

lemma create_with_id:
  assumes "ident = Some i" and "i \<noteq> JString []" and "i \<noteq> JNull" and "i \<noteq> JBool False"
    and "i \<noteq> JNumber 0"
  shows "ia_id (fst (create env imageSource model analysis metadata usage ident)) = i"
    and "snd (create env imageSource model analysis metadata usage ident) = []"
  using assms by (simp_all add: create_def value_or_def truthy_def truthy_value_iff)

lemma create_without_id:
  assumes "ident = None \<or> ident = Some (JString []) \<or> ident = Some JNull
           \<or> ident = Some (JBool False) \<or> ident = Some (JNumber 0)"
  shows "ia_id (fst (create env imageSource model analysis metadata usage ident)) =
           JString (crypto_randomUUID env (uuids_drawn env))"
    and "snd (create env imageSource model analysis metadata usage ident) = [DrewUUID]"
  using assms by (auto simp: create_def value_or_def truthy_def)

text \<open>
  C7, as the code has it. When \<^verbatim>\<open>analyzeImage\<close> succeeds, the image was prepared and
  the request was answered with a body that parsed to an object whose member
  \<^verbatim>\<open>choices\<close> has an element 0 (the first element of an array, or the member \<^verbatim>\<open>"0"\<close>
  of an object), that element is an object whose member \<^verbatim>\<open>message\<close> is an object, and
  the result's analysis is the member \<^verbatim>\<open>content\<close> of that message, which is neither
  the empty string nor \<^verbatim>\<open>null\<close>, \<^verbatim>\<open>false\<close> or \<^verbatim>\<open>0\<close>. Its id is the member \<^verbatim>\<open>id\<close> of
  the body when that is present and truthy, and then no UUID is drawn; otherwise the id
  is the UUID the random generator returns at the call made during this invocation,
  which moves the generator on by one. Its usage is the member \<^verbatim>\<open>usage\<close> of the body,
  present or not; its model is the argument when that is given and non-empty and the
  configured default model otherwise, so the default when no model was passed; and it
  refers to the image source it was given. As long as the generator never returns the
  same value twice, the id generated here differs from the id generated by any invocation
  that finds the generator at or beyond the state this one left it in.
\<close>

theorem analyzeImage_result:
  assumes "analyzeImage cfg env imageSource model prompt = (Settled (Inr r), effects)"
  shows "(\<exists>dataUrl t rsp kvs choices ckvs mkvs.
            prepareImageForAPI env imageSource = Inr dataUrl
            \<and> fetch_post env
                 (api_request cfg dataUrl (str_or prompt DEFAULT_PROMPT)
                    (str_or model (defaultModel (openRouter cfg)))) = Settles t (Inr rsp)
            \<and> rsp_json rsp = Settled (Inr (JObject kvs))
            \<and> map_of kvs ''choices'' = Some choices
            \<and> ((\<exists>rest. choices = JArray (JObject ckvs # rest))
               \<or> (\<exists>members. choices = JObject members
                     \<and> map_of members ''0'' = Some (JObject ckvs)))
            \<and> map_of ckvs ''message'' = Some (JObject mkvs)
            \<and> map_of mkvs ''content'' = Some (ia_analysis r)
            \<and> ia_analysis r \<noteq> JString [] \<and> ia_analysis r \<noteq> JNull
            \<and> ia_analysis r \<noteq> JBool False \<and> ia_analysis r \<noteq> JNumber 0
            \<and> (\<forall>i. map_of kvs ''id'' = Some i \<and> i \<noteq> JString [] \<and> i \<noteq> JNull
                  \<and> i \<noteq> JBool False \<and> i \<noteq> JNumber 0 \<longrightarrow>
                  ia_id r = i
                  \<and> effects =
                      [Sent (api_request cfg dataUrl (str_or prompt DEFAULT_PROMPT)
                               (str_or model (defaultModel (openRouter cfg))))])
            \<and> (map_of kvs ''id'' = None \<or> map_of kvs ''id'' = Some (JString [])
                  \<or> map_of kvs ''id'' = Some JNull \<or> map_of kvs ''id'' = Some (JBool False)
                  \<or> map_of kvs ''id'' = Some (JNumber 0) \<longrightarrow>
                  ia_id r = JString (crypto_randomUUID env (uuids_drawn env))
                  \<and> effects =
                      [Sent (api_request cfg dataUrl (str_or prompt DEFAULT_PROMPT)
                               (str_or model (defaultModel (openRouter cfg)))),
                       DrewUUID]
                  \<and> uuids_drawn (world_after env effects) = uuids_drawn env + 1)
            \<and> ia_usage r = map_of kvs ''usage'')
         \<and> ia_model r =
             (case model of
                None \<Rightarrow> defaultModel (openRouter cfg)
              | Some m \<Rightarrow> if m = [] then defaultModel (openRouter cfg) else m)
         \<and> (model = None \<longrightarrow> ia_model r = defaultModel (openRouter cfg))
         \<and> ia_imageSource r = imageSource
         \<and> (\<forall>cfg' env' imageSource' model' prompt' r' effects'.
               analyzeImage cfg' env' imageSource' model' prompt' = (Settled (Inr r'), effects')
               \<and> DrewUUID \<in> set effects \<and> DrewUUID \<in> set effects'
               \<and> crypto_randomUUID env' = crypto_randomUUID env
               \<and> uuids_drawn (world_after env effects) \<le> uuids_drawn env'
               \<and> inj (crypto_randomUUID env) \<longrightarrow>
               ia_id r' \<noteq> ia_id r)"
proof (intro conjI)
  from analyzeImage_success [OF assms] obtain dataUrl t rsp body a where
    prep: "prepareImageForAPI env imageSource = Inr dataUrl"
    and answered: "fetch_post env
                (api_request cfg dataUrl (str_or prompt DEFAULT_PROMPT)
                   (str_or model (defaultModel (openRouter cfg)))) = Settles t (Inr rsp)"
    and parsed: "rsp_json rsp = Settled (Inr body)"
    and first: "first_choice_content env body = Inr (Some a)"
    and truthy: "truthy_value a"
    and made: "r = fst (create env imageSource (str_or model (defaultModel (openRouter cfg)))
                        a None (js_member body ''usage'') (js_member body ''id''))"
    and effects: "effects =
                Sent (api_request cfg dataUrl (str_or prompt DEFAULT_PROMPT)
                        (str_or model (defaultModel (openRouter cfg))))
                # snd (create env imageSource (str_or model (defaultModel (openRouter cfg)))
                         a None (js_member body ''usage'') (js_member body ''id''))"
    by blast
  from first_choice_content_shape [OF first] obtain kvs choices ckvs mkvs where
    body: "body = JObject kvs"
    and choices: "map_of kvs ''choices'' = Some choices"
    and element: "(\<exists>rest. choices = JArray (JObject ckvs # rest))
              \<or> (\<exists>members. choices = JObject members
                    \<and> map_of members ''0'' = Some (JObject ckvs))"
    and message: "map_of ckvs ''message'' = Some (JObject mkvs)"
    and content: "map_of mkvs ''content'' = Some a"
    by blast
  have analysis: "ia_analysis r = a"
    by (simp add: made create_fields)
  have usage: "ia_usage r = map_of kvs ''usage''"
    by (simp add: made create_fields body)
  have nonempty: "ia_analysis r \<noteq> JString [] \<and> ia_analysis r \<noteq> JNull
            \<and> ia_analysis r \<noteq> JBool False \<and> ia_analysis r \<noteq> JNumber 0"
    using truthy by (simp add: analysis truthy_value_iff)
  have given: "\<forall>i. map_of kvs ''id'' = Some i \<and> i \<noteq> JString [] \<and> i \<noteq> JNull
                  \<and> i \<noteq> JBool False \<and> i \<noteq> JNumber 0 \<longrightarrow>
                  ia_id r = i
                  \<and> effects =
                      [Sent (api_request cfg dataUrl (str_or prompt DEFAULT_PROMPT)
                               (str_or model (defaultModel (openRouter cfg))))]"
    by (simp add: made effects body create_with_id)
  have generated: "map_of kvs ''id'' = None \<or> map_of kvs ''id'' = Some (JString [])
                  \<or> map_of kvs ''id'' = Some JNull \<or> map_of kvs ''id'' = Some (JBool False)
                  \<or> map_of kvs ''id'' = Some (JNumber 0) \<longrightarrow>
                  ia_id r = JString (crypto_randomUUID env (uuids_drawn env))
                  \<and> effects =
                      [Sent (api_request cfg dataUrl (str_or prompt DEFAULT_PROMPT)
                               (str_or model (defaultModel (openRouter cfg)))),
                       DrewUUID]
                  \<and> uuids_drawn (world_after env effects) = uuids_drawn env + 1"
  proof
    assume "map_of kvs ''id'' = None \<or> map_of kvs ''id'' = Some (JString [])
                  \<or> map_of kvs ''id'' = Some JNull \<or> map_of kvs ''id'' = Some (JBool False)
                  \<or> map_of kvs ''id'' = Some (JNumber 0)"
    then have absent: "js_member body ''id'' = None \<or> js_member body ''id'' = Some (JString [])
                  \<or> js_member body ''id'' = Some JNull
                  \<or> js_member body ''id'' = Some (JBool False)
                  \<or> js_member body ''id'' = Some (JNumber 0)"
      by (simp add: body)
    show "ia_id r = JString (crypto_randomUUID env (uuids_drawn env))
                  \<and> effects =
                      [Sent (api_request cfg dataUrl (str_or prompt DEFAULT_PROMPT)
                               (str_or model (defaultModel (openRouter cfg)))),
                       DrewUUID]
                  \<and> uuids_drawn (world_after env effects) = uuids_drawn env + 1"
      by (simp add: made effects create_without_id [OF absent] world_after_def)
  qed
  from prep answered parsed [unfolded body] choices element message
    content [folded analysis] nonempty [THEN conjunct1]
    nonempty [THEN conjunct2, THEN conjunct1]
    nonempty [THEN conjunct2, THEN conjunct2, THEN conjunct1]
    nonempty [THEN conjunct2, THEN conjunct2, THEN conjunct2] given generated usage
  show "\<exists>dataUrl t rsp kvs choices ckvs mkvs.
            prepareImageForAPI env imageSource = Inr dataUrl
            \<and> fetch_post env
                 (api_request cfg dataUrl (str_or prompt DEFAULT_PROMPT)
                    (str_or model (defaultModel (openRouter cfg)))) = Settles t (Inr rsp)
            \<and> rsp_json rsp = Settled (Inr (JObject kvs))
            \<and> map_of kvs ''choices'' = Some choices
            \<and> ((\<exists>rest. choices = JArray (JObject ckvs # rest))
               \<or> (\<exists>members. choices = JObject members
                     \<and> map_of members ''0'' = Some (JObject ckvs)))
            \<and> map_of ckvs ''message'' = Some (JObject mkvs)
            \<and> map_of mkvs ''content'' = Some (ia_analysis r)
            \<and> ia_analysis r \<noteq> JString [] \<and> ia_analysis r \<noteq> JNull
            \<and> ia_analysis r \<noteq> JBool False \<and> ia_analysis r \<noteq> JNumber 0
            \<and> (\<forall>i. map_of kvs ''id'' = Some i \<and> i \<noteq> JString [] \<and> i \<noteq> JNull
                  \<and> i \<noteq> JBool False \<and> i \<noteq> JNumber 0 \<longrightarrow>
                  ia_id r = i
                  \<and> effects =
                      [Sent (api_request cfg dataUrl (str_or prompt DEFAULT_PROMPT)
                               (str_or model (defaultModel (openRouter cfg))))])
            \<and> (map_of kvs ''id'' = None \<or> map_of kvs ''id'' = Some (JString [])
                  \<or> map_of kvs ''id'' = Some JNull \<or> map_of kvs ''id'' = Some (JBool False)
                  \<or> map_of kvs ''id'' = Some (JNumber 0) \<longrightarrow>
                  ia_id r = JString (crypto_randomUUID env (uuids_drawn env))
                  \<and> effects =
                      [Sent (api_request cfg dataUrl (str_or prompt DEFAULT_PROMPT)
                               (str_or model (defaultModel (openRouter cfg)))),
                       DrewUUID]
                  \<and> uuids_drawn (world_after env effects) = uuids_drawn env + 1)
            \<and> ia_usage r = map_of kvs ''usage''"
    by (intro exI conjI) assumption+
  show "ia_model r =
             (case model of
                None \<Rightarrow> defaultModel (openRouter cfg)
              | Some m \<Rightarrow> if m = [] then defaultModel (openRouter cfg) else m)"
    by (simp add: made create_fields str_or_def split: option.splits)
  then show "model = None \<longrightarrow> ia_model r = defaultModel (openRouter cfg)"
    by simp
  show "ia_imageSource r = imageSource"
    by (simp add: made create_fields)
  show "\<forall>cfg' env' imageSource' model' prompt' r' effects'.
               analyzeImage cfg' env' imageSource' model' prompt' = (Settled (Inr r'), effects')
               \<and> DrewUUID \<in> set effects \<and> DrewUUID \<in> set effects'
               \<and> crypto_randomUUID env' = crypto_randomUUID env
               \<and> uuids_drawn (world_after env effects) \<le> uuids_drawn env'
               \<and> inj (crypto_randomUUID env) \<longrightarrow>
               ia_id r' \<noteq> ia_id r"
  proof (intro allI impI)
    fix cfg' env' imageSource' model' prompt' r' effects'
    assume a: "analyzeImage cfg' env' imageSource' model' prompt' = (Settled (Inr r'), effects')
               \<and> DrewUUID \<in> set effects \<and> DrewUUID \<in> set effects'
               \<and> crypto_randomUUID env' = crypto_randomUUID env
               \<and> uuids_drawn (world_after env effects) \<le> uuids_drawn env'
               \<and> inj (crypto_randomUUID env)"
    then have later: "analyzeImage cfg' env' imageSource' model' prompt' =
                        (Settled (Inr r'), effects')"
      and drew: "DrewUUID \<in> set effects" and drew': "DrewUUID \<in> set effects'"
      and same: "crypto_randomUUID env' = crypto_randomUUID env"
      and moved: "uuids_drawn (world_after env effects) \<le> uuids_drawn env'"
      and distinct: "inj (crypto_randomUUID env)"
      by blast+
    have here: "ia_id r = JString (crypto_randomUUID env (uuids_drawn env))"
      using assms drew by (rule analyzeImage_generated_id)
    have there: "ia_id r' = JString (crypto_randomUUID env (uuids_drawn env'))"
      using analyzeImage_generated_id [OF later drew'] by (simp add: same)
    have "0 < count_list effects DrewUUID"
      using drew count_list_0_iff [of effects DrewUUID] by simp
    with moved have "uuids_drawn env < uuids_drawn env'"
      by (simp add: world_after_def)
    then have "crypto_randomUUID env (uuids_drawn env') \<noteq> crypto_randomUUID env (uuids_drawn env)"
      using distinct by (auto dest: injD)
    then show "ia_id r' \<noteq> ia_id r"
      by (simp add: here there)
  qed
qed

lemma sample_uuid_inj: "inj sample_uuid"
  by (simp add: inj_def sample_uuid_def)

lemma anonymous_prepared:
  "prepareImageForAPI anonymous_env sample_source = Inr ''data:image/jpeg;base64,/9j/2w==''"
  "prepareImageForAPI (world_after anonymous_env effects) sample_source =
     Inr ''data:image/jpeg;base64,/9j/2w==''"
  by (rule prepared_like_sample;
      simp add: anonymous_env_def world_after_def sample_source_def)+

lemma array_content_prepared:
  "prepareImageForAPI array_content_env sample_source = Inr ''data:image/jpeg;base64,/9j/2w==''"
  by (rule prepared_like_sample) (simp_all add: array_content_env_def sample_source_def)

lemma anonymous_run:
  "analyzeImage (defaultConfig ''key'') anonymous_env sample_source None None =
     (Settled (Inr \<lparr> ia_id = JString ''uuid-'',
                      ia_imageSource = sample_source,
                      ia_model = ''anthropic/claude-3.5-sonnet'',
                      ia_analysis = JString ''A dog.'',
                      ia_timestamp = 1700000000,
                      ia_metadata = None,
                      ia_usage = None \<rparr>),
      [Sent (api_request (defaultConfig ''key'') ''data:image/jpeg;base64,/9j/2w==''
               DEFAULT_PROMPT ''anthropic/claude-3.5-sonnet''),
       DrewUUID])"
  by (subst analyzeImage_prepared [OF anonymous_prepared(1)])
    (simp add: sample_request callOpenRouterAPI_def Let_def anonymous_env_def
      sample_env_fields callOpenRouterAPI_settled_def response_with_def anonymous_body_def
      js_get_def no_choices_def first_choice_content_def opt_chain_def
      create_def value_or_def truthy_def str_or_def defaultConfig_def
      timer_delay_def TIMEOUT_MAX_def sample_uuid_def)

lemma anonymous_rerun:
  "analyzeImage (defaultConfig ''key'')
     (world_after anonymous_env
        [Sent (api_request (defaultConfig ''key'') ''data:image/jpeg;base64,/9j/2w==''
                 DEFAULT_PROMPT ''anthropic/claude-3.5-sonnet''),
         DrewUUID])
     sample_source None None =
     (Settled (Inr \<lparr> ia_id = JString ''uuid-i'',
                      ia_imageSource = sample_source,
                      ia_model = ''anthropic/claude-3.5-sonnet'',
                      ia_analysis = JString ''A dog.'',
                      ia_timestamp = 1700000000,
                      ia_metadata = None,
                      ia_usage = None \<rparr>),
      [Sent (api_request (defaultConfig ''key'') ''data:image/jpeg;base64,/9j/2w==''
               DEFAULT_PROMPT ''anthropic/claude-3.5-sonnet''),
       DrewUUID])"
  by (subst analyzeImage_prepared [OF anonymous_prepared(2)])
    (simp add: sample_request callOpenRouterAPI_def Let_def anonymous_env_def world_after_def
      sample_env_fields callOpenRouterAPI_settled_def response_with_def anonymous_body_def
      js_get_def no_choices_def first_choice_content_def opt_chain_def
      create_def value_or_def truthy_def str_or_def defaultConfig_def
      timer_delay_def TIMEOUT_MAX_def sample_uuid_def)

theorem analyzeImage_result_witness:
  "\<exists>r effects r' effects'.
     analyzeImage (defaultConfig ''key'') anonymous_env sample_source None None =
       (Settled (Inr r), effects)
     \<and> ia_analysis r = JString ''A dog.''
     \<and> ia_id r = JString ''uuid-''
     \<and> ia_usage r = None
     \<and> ia_model r = ''anthropic/claude-3.5-sonnet''
     \<and> ia_imageSource r = sample_source
     \<and> analyzeImage (defaultConfig ''key'') (world_after anonymous_env effects)
          sample_source None None = (Settled (Inr r'), effects')
     \<and> ia_id r' = JString ''uuid-i''
     \<and> ia_id r' \<noteq> ia_id r"
proof -
  define request where "request =
    api_request (defaultConfig ''key'') ''data:image/jpeg;base64,/9j/2w=='' DEFAULT_PROMPT
      ''anthropic/claude-3.5-sonnet''"
  define r where "r =
    \<lparr> ia_id = JString ''uuid-'', ia_imageSource = sample_source,
      ia_model = ''anthropic/claude-3.5-sonnet'', ia_analysis = JString ''A dog.'',
      ia_timestamp = 1700000000, ia_metadata = None, ia_usage = None \<rparr>"
  define r' where "r' =
    \<lparr> ia_id = JString ''uuid-i'', ia_imageSource = sample_source,
      ia_model = ''anthropic/claude-3.5-sonnet'', ia_analysis = JString ''A dog.'',
      ia_timestamp = 1700000000, ia_metadata = None, ia_usage = None \<rparr>"
  have run: "analyzeImage (defaultConfig ''key'') anonymous_env sample_source None None =
       (Settled (Inr r), [Sent request, DrewUUID])"
    unfolding r_def request_def by (rule anonymous_run)
  have rerun: "analyzeImage (defaultConfig ''key'')
       (world_after anonymous_env [Sent request, DrewUUID]) sample_source None None =
       (Settled (Inr r'), [Sent request, DrewUUID])"
    unfolding r'_def request_def by (rule anonymous_rerun)
  note facts = analyzeImage_result [OF run]
  have model: "ia_model r = defaultModel (openRouter (defaultConfig ''key''))"
    using facts [THEN conjunct2, THEN conjunct2, THEN conjunct1] by simp
  have source: "ia_imageSource r = sample_source"
    using facts [THEN conjunct2, THEN conjunct2, THEN conjunct2, THEN conjunct1] .
  have later: "analyzeImage (defaultConfig ''key'')
         (world_after anonymous_env [Sent request, DrewUUID]) sample_source None None =
         (Settled (Inr r'), [Sent request, DrewUUID])
       \<and> DrewUUID \<in> set [Sent request, DrewUUID] \<and> DrewUUID \<in> set [Sent request, DrewUUID]
       \<and> crypto_randomUUID (world_after anonymous_env [Sent request, DrewUUID]) =
           crypto_randomUUID anonymous_env
       \<and> uuids_drawn (world_after anonymous_env [Sent request, DrewUUID])
           \<le> uuids_drawn (world_after anonymous_env [Sent request, DrewUUID])
       \<and> inj (crypto_randomUUID anonymous_env)"
    using rerun
    by (simp add: world_after_def anonymous_env_def sample_env_fields sample_uuid_inj)
  have fresh: "ia_id r' \<noteq> ia_id r"
    using facts [THEN conjunct2, THEN conjunct2, THEN conjunct2, THEN conjunct2,
        rule_format, OF later] .
  have "ia_analysis r = JString ''A dog.''" "ia_id r = JString ''uuid-''" "ia_usage r = None"
    "ia_id r' = JString ''uuid-i''"
    by (simp_all add: r_def r'_def)
  with run rerun model source fresh show ?thesis
    by (intro exI [of _ r] exI [of _ "[Sent request, DrewUUID]"] exI [of _ r'])
      (simp add: defaultConfig_def)
qed

text \<open>
  C7 as stated fails: an endpoint whose first choice has an empty array as content. An
  array is truthy, so the call succeeds, and the analysis of the result is that empty
  array.
\<close>

theorem analyzeImage_returns_empty_array:
  "analyzeImage (defaultConfig ''key'') array_content_env sample_source None None =
     (Settled (Inr \<lparr> ia_id = JString ''gen-1'',
                      ia_imageSource = sample_source,
                      ia_model = ''anthropic/claude-3.5-sonnet'',
                      ia_analysis = JArray [],
                      ia_timestamp = 1700000000,
                      ia_metadata = None,
                      ia_usage = Some sample_usage \<rparr>),
      [Sent (api_request (defaultConfig ''key'') ''data:image/jpeg;base64,/9j/2w==''
               DEFAULT_PROMPT ''anthropic/claude-3.5-sonnet'')])"
  by (subst analyzeImage_prepared [OF array_content_prepared])
    (simp add: sample_request callOpenRouterAPI_def Let_def array_content_env_def
      sample_env_fields callOpenRouterAPI_settled_def response_with_def body_with_content_def
      js_get_def no_choices_def first_choice_content_def opt_chain_def
      create_def value_or_def truthy_def str_or_def defaultConfig_def
      timer_delay_def TIMEOUT_MAX_def)

section \<open>The loader and the use case on sample inputs\<close>

lemmas loader_defs =
  loadImage_def loadImage_catch_def isUrl_def
  loadFromFile_def loadFromFile_try_def loadFromFile_catch_def
  loadFromUrl_def loadFromUrl_try_def loadFromUrl_catch_def

lemma sample_missing_file:
  "loadImage (defaultConfig ''key'') sample_env ''missing.jpg'' =
     Inl (Thrown (new_ImageNotFoundError ''at <anonymous>'' ''File not found: missing.jpg''))"
  by (simp add: loader_defs sample_env_fields error_defs)

lemma sample_missing_file_run:
  "execute (defaultConfig ''key'') sample_env ''missing.jpg'' None None =
     (Settled (Inl (Thrown (new_ImageAnalysisError ''at <anonymous>''
        ''Unexpected error during vision analysis''
        (Some (new_ImageNotFoundError ''at <anonymous>'' ''File not found: missing.jpg''))))),
      [])"
  by (simp add: execute_def execute_try_def execute_catch_def sample_missing_file
      sample_env_fields error_defs)

lemma sample_url_404:
  "loadImage (defaultConfig ''key'') sample_env ''https://host/x.png'' =
     Inl (Thrown (new_ImageProcessingError ''at <anonymous>''
            ''Failed to load image from source: https://host/x.png''
            (Some (new_ImageProcessingError ''at <anonymous>''
                     ''Failed to load image from URL: https://host/x.png''
                     (Some (new_Error ''at <anonymous>'' ''HTTP 404: Not Found''))))))"
  by (simp add: loader_defs sample_env_fields error_defs number_to_string.simps digit_char_def)

section \<open>The loader and the use case in general\<close>

text \<open>
  A local path that \<^verbatim>\<open>fs.access\<close> rejects with an \<^verbatim>\<open>ENOENT\<close> error is not found.
\<close>

lemma loadImage_missing_file:
  assumes "\<not> isUrl env source" and "fs_access env source = Some (Thrown x)"
    and "str_includes (err_message x) ''ENOENT''"
  shows "loadImage cfg env source =
           Inl (Thrown (new_ImageNotFoundError (captured_stack env)
                  (''File not found: '' @ source)))"
  using assms by (simp add: loader_defs error_defs)

text \<open>
  Bytes that fail validation are invalid when they come from a URL, and when they come
  from a file unless the message of the \<^verbatim>\<open>InvalidImageError\<close>, which quotes the path,
  contains \<^verbatim>\<open>ENOENT\<close>: the file handler tests the message before the class.
\<close>

lemma loadImage_url_invalid:
  assumes "isUrl env source" and "fetch_get env source = Inr response" and "get_ok response"
    and "get_arrayBuffer response = Inr data" and "validateImage cfg env data = Inr False"
  shows "loadImage cfg env source =
           Inl (Thrown (new_InvalidImageError (captured_stack env)
                  (''Invalid image from URL: '' @ source)))"
  using assms by (simp add: loader_defs error_defs)

lemma loadImage_file_invalid:
  assumes "\<not> isUrl env source" and "fs_access env source = None"
    and "fs_readFileSync env source = Inr data" and "validateImage cfg env data = Inr False"
  shows "loadImage cfg env source =
           (if str_includes (''Invalid image: Invalid image file: '' @ source) ''ENOENT''
            then Inl (Thrown (new_ImageNotFoundError (captured_stack env)
                        (''File not found: '' @ source)))
            else Inl (Thrown (new_InvalidImageError (captured_stack env)
                        (''Invalid image file: '' @ source))))"
  using assms by (simp add: loader_defs error_defs)

text \<open>A URL answered with a status that is not ok is a processing failure.\<close>

lemma loadImage_url_not_ok:
  assumes "isUrl env source" and "fetch_get env source = Inr response" and "\<not> get_ok response"
  shows "fails_with (loadImage cfg env source) ImageProcessingError"
  using assms by (simp add: loader_defs error_defs)

text \<open>
  What the handler of \<^verbatim>\<open>execute\<close> does with a failure of the loader: an
  \<^verbatim>\<open>ImageProcessingError\<close> passes unchanged, every other class is wrapped.
\<close>

lemma execute_loader_failure:
  assumes "loadImage cfg env source = Inl e"
  shows "execute cfg env source model prompt =
           (if instance_of e ImageProcessingError \<or> instance_of e ImageAnalysisError
            then (Settled (Inl e), [])
            else (Settled (Inl (Thrown (new_ImageAnalysisError (captured_stack env)
                    ''Unexpected error during vision analysis'' (as_Error e)))), []))"
  using assms by (simp add: execute_def execute_try_def execute_catch_def)


section \<open>Failures of the use case (claim C1)\<close>

text \<open>
  C1 on the code, at a missing file. The loader fails with an \<^verbatim>\<open>ImageNotFoundError\<close>;
  \<^verbatim>\<open>execute\<close> does not pass it on: its handler lets only \<^verbatim>\<open>ImageProcessingError\<close> and
  \<^verbatim>\<open>ImageAnalysisError\<close> through and wraps every other failure, this one included, in
  an \<^verbatim>\<open>ImageAnalysisError\<close> "Unexpected error during vision analysis" that carries
  the loader's failure as cause.
\<close>

theorem execute_wraps_not_found:
  "loadImage (defaultConfig ''key'') sample_env ''missing.jpg'' =
     Inl (Thrown (new_ImageNotFoundError ''at <anonymous>'' ''File not found: missing.jpg''))
   \<and> fst (execute (defaultConfig ''key'') sample_env ''missing.jpg'' None None) =
     Settled (Inl (Thrown (new_ImageAnalysisError ''at <anonymous>''
       ''Unexpected error during vision analysis''
       (Some (new_ImageNotFoundError ''at <anonymous>'' ''File not found: missing.jpg'')))))
   \<and> fails_with (loadImage (defaultConfig ''key'') sample_env ''missing.jpg'') ImageNotFoundError
   \<and> rejects_with (fst (execute (defaultConfig ''key'') sample_env ''missing.jpg'' None None))
        ImageAnalysisError"
  by (simp add: sample_missing_file sample_missing_file_run error_defs rejects_with_def)

section \<open>Failures of the loader (claim C2)\<close>

text \<open>
  C2 on the code, at a URL whose fetch is answered with status 404. The loader does not
  fail with an \<^verbatim>\<open>ImageNotFoundError\<close>: \<^verbatim>\<open>loadFromUrl\<close> throws a plain error
  "HTTP 404: Not Found", wraps it as an \<^verbatim>\<open>ImageProcessingError\<close>, and \<^verbatim>\<open>loadImage\<close>
  wraps that once more.
\<close>

theorem loadImage_url_not_found:
  "loadImage (defaultConfig ''key'') sample_env ''https://host/x.png'' =
     Inl (Thrown (new_ImageProcessingError ''at <anonymous>''
            ''Failed to load image from source: https://host/x.png''
            (Some (new_ImageProcessingError ''at <anonymous>''
                     ''Failed to load image from URL: https://host/x.png''
                     (Some (new_Error ''at <anonymous>'' ''HTTP 404: Not Found''))))))
   \<and> fails_with (loadImage (defaultConfig ''key'') sample_env ''https://host/x.png'')
        ImageProcessingError
   \<and> \<not> fails_with (loadImage (defaultConfig ''key'') sample_env ''https://host/x.png'')
        ImageNotFoundError"
  by (simp add: sample_url_404 error_defs)

section \<open>The boundary (claim C8)\<close>
















end
